theory Spec2Isabelle
  imports Complex_Main "HOL-Library.Word"
begin

section \<open>JavaScript strings and bytes\<close>

text \<open>
  A JavaScript string is a sequence of 16-bit UTF-16 code units: \<open>str.length\<close>,
  \<open>charAt\<close>, \<open>split('')\<close>, \<open>substring\<close> and \<open>+\<close> all work on code units.
  A Node \<open>Buffer\<close> is a sequence of bytes.
\<close>

type_synonym char16 = "16 word"
type_synonym jsstring = "char16 list"
type_synonym byte = "8 word"
type_synonym bytes = "byte list"

text \<open>A string literal of the source whose characters are all ASCII.\<close>

definition js :: "string \<Rightarrow> jsstring" where
  "js s = map (\<lambda>c. of_nat (of_char c)) s"

text \<open>
  \<open>String(n)\<close> for a non-negative integer \<open>n\<close>: its decimal digits.
\<close>

definition digit_char :: "nat \<Rightarrow> char16" where
  "digit_char n = of_nat (48 + n)"

fun String_nat :: "nat \<Rightarrow> jsstring" where
  "String_nat n = (if n < 10 then [digit_char n] else String_nat (n div 10) @ [digit_char (n mod 10)])"

declare String_nat.simps [simp del]

section \<open>Node.js built-ins used by the source\<close>

text \<open>
  The source relies on a few built-ins of the JavaScript runtime. They are modelled here
  after their documented behaviour.
\<close>

subsection \<open>Number.prototype.toString(16)\<close>

definition hex_char :: "nat \<Rightarrow> char16" where
  "hex_char n = (if n < 10 then of_nat (48 + n) else of_nat (87 + n))"

fun toString16 :: "nat \<Rightarrow> jsstring" where
  "toString16 n = (if n < 16 then [hex_char n] else toString16 (n div 16) @ [hex_char (n mod 16)])"

declare toString16.simps [simp del]

subsection \<open>Buffer.from(string, 'hex')\<close>

text \<open>
  Two hexadecimal digits make one byte. The decoder looks at the low byte of each code
  unit only. Decoding stops at the first pair that is not two hexadecimal digits, and a
  last digit without a partner is dropped.
\<close>

definition hex_value :: "char16 \<Rightarrow> nat option" where
  "hex_value c =
     (let b = unat c mod 256
      in if 48 \<le> b \<and> b \<le> 57 then Some (b - 48)
         else if 97 \<le> b \<and> b \<le> 102 then Some (b - 87)
         else if 65 \<le> b \<and> b \<le> 70 then Some (b - 55)
         else None)"

fun Buffer_from_hex :: "jsstring \<Rightarrow> bytes" where
  "Buffer_from_hex (a # b # rest) =
     (case hex_value a of
        None \<Rightarrow> []
      | Some x \<Rightarrow> (case hex_value b of
                    None \<Rightarrow> []
                  | Some y \<Rightarrow> of_nat (16 * x + y) # Buffer_from_hex rest))"
| "Buffer_from_hex [a] = []"
| "Buffer_from_hex [] = []"

subsection \<open>buf.toString(): UTF-8 decoding\<close>

text \<open>
  The decoder reads one code point at a time. A byte that cannot start or continue a
  well-formed sequence ends the sequence read so far, which becomes one \<open>U+FFFD\<close>, and
  decoding resumes at that byte.
\<close>

definition in_range :: "byte \<Rightarrow> byte \<Rightarrow> byte \<Rightarrow> bool" where
  "in_range lo hi b = (lo \<le> b \<and> b \<le> hi)"

definition tail_bits :: "byte \<Rightarrow> nat" where
  "tail_bits b = unat b mod 64"

fun utf8_decode :: "bytes \<Rightarrow> nat list" where
  "utf8_decode [] = []"
| "utf8_decode (b # bs) =
     (if b < 0x80 then unat b # utf8_decode bs
      else if in_range 0xC2 0xDF b then
        (case bs of
           [] \<Rightarrow> [0xFFFD]
         | c # cs \<Rightarrow>
             if in_range 0x80 0xBF c
             then ((unat b mod 32) * 64 + tail_bits c) # utf8_decode cs
             else 0xFFFD # utf8_decode bs)
      else if in_range 0xE0 0xEF b then
        (case bs of
           [] \<Rightarrow> [0xFFFD]
         | c # cs \<Rightarrow>
             if in_range (if b = 0xE0 then 0xA0 else 0x80) (if b = 0xED then 0x9F else 0xBF) c
             then (case cs of
                     [] \<Rightarrow> [0xFFFD]
                   | d # ds \<Rightarrow>
                       if in_range 0x80 0xBF d
                       then ((unat b mod 16) * 4096 + tail_bits c * 64 + tail_bits d) # utf8_decode ds
                       else 0xFFFD # utf8_decode cs)
             else 0xFFFD # utf8_decode bs)
      else if in_range 0xF0 0xF4 b then
        (case bs of
           [] \<Rightarrow> [0xFFFD]
         | c # cs \<Rightarrow>
             if in_range (if b = 0xF0 then 0x90 else 0x80) (if b = 0xF4 then 0x8F else 0xBF) c
             then (case cs of
                     [] \<Rightarrow> [0xFFFD]
                   | d # ds \<Rightarrow>
                       if in_range 0x80 0xBF d
                       then (case ds of
                               [] \<Rightarrow> [0xFFFD]
                             | e # es \<Rightarrow>
                                 if in_range 0x80 0xBF e
                                 then ((unat b mod 8) * 262144 + tail_bits c * 4096
                                        + tail_bits d * 64 + tail_bits e) # utf8_decode es
                                 else 0xFFFD # utf8_decode ds)
                       else 0xFFFD # utf8_decode cs)
             else 0xFFFD # utf8_decode bs)
      else 0xFFFD # utf8_decode bs)"

text \<open>A code point as UTF-16: one code unit, or a surrogate pair above \<open>0xFFFF\<close>.\<close>

definition utf16_of :: "nat \<Rightarrow> jsstring" where
  "utf16_of cp =
     (if cp < 0x10000 then [of_nat cp]
      else [of_nat (0xD800 + (cp - 0x10000) div 1024), of_nat (0xDC00 + (cp - 0x10000) mod 1024)])"

definition Buffer_toString :: "bytes \<Rightarrow> jsstring" where
  "Buffer_toString buff = concat (map utf16_of (utf8_decode buff))"

subsection \<open>Writing a string into a buffer: UTF-8 encoding\<close>

text \<open>
  A surrogate pair becomes one four-byte sequence; a surrogate without its partner
  becomes the three bytes of \<open>U+FFFD\<close>.
\<close>

definition utf8_of :: "nat \<Rightarrow> bytes" where
  "utf8_of cp =
     (if cp < 0x80 then [of_nat cp]
      else if cp < 0x800 then [of_nat (0xC0 + cp div 64), of_nat (0x80 + cp mod 64)]
      else if cp < 0x10000 then
        [of_nat (0xE0 + cp div 4096), of_nat (0x80 + (cp div 64) mod 64), of_nat (0x80 + cp mod 64)]
      else
        [of_nat (0xF0 + cp div 262144), of_nat (0x80 + (cp div 4096) mod 64),
         of_nat (0x80 + (cp div 64) mod 64), of_nat (0x80 + cp mod 64)])"

definition high_surrogate :: "char16 \<Rightarrow> bool" where
  "high_surrogate u = (0xD800 \<le> u \<and> u \<le> 0xDBFF)"

definition low_surrogate :: "char16 \<Rightarrow> bool" where
  "low_surrogate u = (0xDC00 \<le> u \<and> u \<le> 0xDFFF)"

fun utf8_encode :: "jsstring \<Rightarrow> bytes" where
  "utf8_encode [] = []"
| "utf8_encode (u # us) =
     (if high_surrogate u then
        (case us of
           [] \<Rightarrow> utf8_of 0xFFFD
         | l # ls \<Rightarrow>
             if low_surrogate l
             then utf8_of (0x10000 + (unat u - 0xD800) * 1024 + (unat l - 0xDC00)) @ utf8_encode ls
             else utf8_of 0xFFFD @ utf8_encode us)
      else if low_surrogate u then utf8_of 0xFFFD @ utf8_encode us
      else utf8_of (unat u) @ utf8_encode us)"

section \<open>utils.js\<close>

subsection \<open>getParityBit\<close>

text \<open>
  A JavaScript number that is a sum of small non-negative integers, or \<open>NaN\<close>
  (\<open>None\<close>). The sums below stay far under \<open>2 ^ 53\<close> for every string a JavaScript
  engine can hold, so they are exact.
\<close>

type_synonym jsnum = "nat option"

definition num_add :: "jsnum \<Rightarrow> jsnum \<Rightarrow> jsnum" where
  "num_add a b = (case a of None \<Rightarrow> None | Some x \<Rightarrow> (case b of None \<Rightarrow> None | Some y \<Rightarrow> Some (x + y)))"

definition num_mul :: "jsnum \<Rightarrow> jsnum \<Rightarrow> jsnum" where
  "num_mul a b = (case a of None \<Rightarrow> None | Some x \<Rightarrow> (case b of None \<Rightarrow> None | Some y \<Rightarrow> Some (x * y)))"

text \<open>
  \<open>parseInt(c, 10)\<close> for a string \<open>c\<close> of one code unit (the result of \<open>charAt\<close>):
  the digit's value, and \<open>NaN\<close> for everything else.
\<close>

definition parseInt_char :: "char16 \<Rightarrow> jsnum" where
  "parseInt_char c = (if 0x30 \<le> c \<and> c \<le> 0x39 then Some (unat c - 48) else None)"

text \<open>
  The loop of \<open>getParityBit\<close> (lines 7 to 9):
  \<^verbatim>\<open>parity += parseInt(reversedCode.charAt(counter), 10) * Math.pow(3, ((counter + 1) % 2))\<close>
\<close>

function parity_loop :: "jsstring \<Rightarrow> nat \<Rightarrow> jsnum \<Rightarrow> jsnum" where
  "parity_loop reversedCode counter parity =
     (if counter < length reversedCode
      then parity_loop reversedCode (counter + 1)
             (num_add parity
                (num_mul (parseInt_char (reversedCode ! counter)) (Some (3 ^ ((counter + 1) mod 2)))))
      else parity)"
  by pat_completeness auto
termination
  by (relation "measure (\<lambda>(r, c, p). length r - c)") auto

declare parity_loop.simps [simp del]

text \<open>
  \<^verbatim>\<open>return String((10 - (parity % 10)) % 10)\<close>: \<open>String(NaN)\<close> is \<open>"NaN"\<close>.
\<close>

definition getParityBit :: "jsstring \<Rightarrow> jsstring" where
  "getParityBit str =
     (let reversedCode = rev str
      in case parity_loop reversedCode 0 (Some 0) of
           None \<Rightarrow> js ''NaN''
         | Some parity \<Rightarrow> String_nat ((10 - (parity mod 10)) mod 10))"

subsection \<open>bytesLength and spaceText\<close>

text \<open>
  The test \<^verbatim>\<open>/^[\u0000-\u00ff]$/.test(c)\<close> on a string of one code unit.
\<close>

definition single_byte_char :: "char16 \<Rightarrow> bool" where
  "single_byte_char c = (c \<le> 0xFF)"

function bytesLength_loop :: "jsstring \<Rightarrow> nat \<Rightarrow> nat \<Rightarrow> nat" where
  "bytesLength_loop str i bytesCount =
     (if i < length str
      then bytesLength_loop str (i + 1)
             (if single_byte_char (str ! i) then bytesCount + 1 else bytesCount + 2)
      else bytesCount)"
  by pat_completeness auto
termination
  by (relation "measure (\<lambda>(s, i, n). length s - i)") auto

declare bytesLength_loop.simps [simp del]

definition bytesLength :: "jsstring \<Rightarrow> nat" where
  "bytesLength str = bytesLength_loop str 0 0"

text \<open>
  The padding loop of \<open>spaceText\<close> (lines 40 to 42), for an integer \<open>space\<close>:
  \<^verbatim>\<open>for (let i = 0; i < space; i++) { str += ' '; }\<close>
\<close>

function space_loop :: "int \<Rightarrow> int \<Rightarrow> jsstring \<Rightarrow> jsstring" where
  "space_loop i space str = (if i < space then space_loop (i + 1) space (str @ [0x20]) else str)"
  by pat_completeness auto
termination
  by (relation "measure (\<lambda>(i, space, s). nat (space - i))") auto

declare space_loop.simps [simp del]

definition spaceText :: "jsstring \<Rightarrow> jsstring \<Rightarrow> int \<Rightarrow> jsstring" where
  "spaceText text1 text2 width =
     (let l_bytes = int (bytesLength text1);
          r_bytes = int (bytesLength text2);
          space = width - l_bytes - r_bytes;
          str = space_loop 0 space text1
      in str @ text2)"

subsection \<open>codeLength\<close>

text \<open>
  \<^verbatim>\<open>let buff = Buffer.from((str.length).toString(16), 'hex'); return buff.toString();\<close>
\<close>

definition codeLength :: "jsstring \<Rightarrow> jsstring" where
  "codeLength str = (let buff = Buffer_from_hex (toString16 (length str)) in Buffer_toString buff)"

section \<open>JavaScript values\<close>

text \<open>
  The arguments of the printer's methods are untyped. The values the model covers are
  \<open>undefined\<close>, \<open>null\<close>, booleans, integer-valued numbers and strings.
\<close>

datatype jsval = Undefined | Null | Bool bool | Num int | Str jsstring

text \<open>Truthiness, as \<open>!v\<close>, \<open>v || d\<close> and \<open>v ? a : b\<close> test it.\<close>

fun truthy :: "jsval \<Rightarrow> bool" where
  "truthy Undefined = False"
| "truthy Null = False"
| "truthy (Bool b) = b"
| "truthy (Num n) = (n \<noteq> 0)"
| "truthy (Str s) = (s \<noteq> [])"

definition or_else :: "jsval \<Rightarrow> jsval \<Rightarrow> jsval" where
  "or_else v d = (if truthy v then v else d)"

fun is_number :: "jsval \<Rightarrow> bool" where
  "is_number (Num n) = True"
| "is_number v = False"

fun is_string :: "jsval \<Rightarrow> bool" where
  "is_string (Str s) = True"
| "is_string v = False"

section \<open>The environment of the printer\<close>

text \<open>
  A decoded image, as \<open>image.js\<close> hands it over: the lines of \<open>toBitmap(density)\<close> and
  the width, height and data of \<open>toRaster()\<close>.
\<close>

record escpos_image =
  toBitmap :: "int \<Rightarrow> bytes list"
  raster_width :: int
  raster_height :: int
  raster_data :: bytes

datatype image_arg = Image escpos_image | NotAnImage

text \<open>
  The options of \<open>qrimage\<close>: \<open>type\<close> and \<open>mode\<close>, which the printer reads, and the
  other properties, which only \<open>qr-image\<close> reads.
\<close>

record qr_options =
  qr_type :: jsval
  qr_mode :: jsval
  qr_others :: "(jsstring \<times> jsval) list"

text \<open>
  \<open>commands.js\<close>, \<open>image.js\<close>, the character transcoder \<open>iconv-lite\<close>, the buffer
  package \<open>mutable-buffer\<close>, the packages \<open>qr-image\<close> and \<open>get-pixels\<close> and the
  transport adapter are modules of their own. What the printer takes from them is a
  parameter of the model:

  \<^item> for a constant or a table entry of \<open>commands.js\<close> that the source only hands to
    \<open>this.buffer.write\<close>, the bytes which that call appends (a table is a function of its
    key, a command built by a function of \<open>commands.js\<close> a function of the arguments);
  \<^item> the constants the source computes with: the end-of-line string, the default QR
    level and the numeric bounds of the QSPrinter model;
  \<^item> \<open>iconv.encode\<close>, which returns bytes or throws for an encoding it does not know;
  \<^item> the string built-ins \<open>toUpperCase\<close>, \<open>toLowerCase\<close> and the conversion of a
    string to a number (\<open>None\<close> is \<open>NaN\<close>);
  \<^item> two bounds of the JavaScript engine: the greatest length of a string, beyond
    which a concatenation throws a \<open>RangeError\<close>, and the number of nested calls of
    \<open>tableCustom\<close> for which the call stack has room, beyond which a call throws a
    \<open>RangeError\<close>;
  \<^item> \<open>qr.imageSync\<close>, which returns the bytes of an image file or throws, and
    \<open>getPixels\<close> followed by \<open>new Image\<close>: the decoded image which the callback of
    \<open>getPixels\<close> receives, or \<open>None\<close> when it receives an error. \<open>getPixels\<close> calls
    back after the call of \<open>qrimage\<close> has returned.
\<close>

record env =
  EOL :: jsstring
  ESC :: bytes
  TAB :: bytes
  BEEP :: bytes
  MARGINS :: "jsstring \<Rightarrow> bytes"
  FEED_CONTROL_SEQUENCES :: "jsstring \<Rightarrow> bytes"
  TEXT_FORMAT :: "jsstring \<Rightarrow> bytes"
  TXT_CUSTOM_SIZE :: "jsval \<Rightarrow> jsval \<Rightarrow> bytes"
  CHARACTER_SPACING :: "jsstring \<Rightarrow> bytes"
  LINE_SPACING :: "jsstring \<Rightarrow> bytes"
  HARDWARE :: "jsstring \<Rightarrow> bytes"
  PAPER :: "jsstring \<Rightarrow> bytes"
  CASH_DRAWER :: "jsstring \<Rightarrow> bytes"
  COLOR :: "jsstring \<Rightarrow> bytes"
  BARCODE_FORMAT :: "jsstring \<Rightarrow> bytes"
  BARCODE_WIDTH :: "jsval \<Rightarrow> bytes"
  BARCODE_HEIGHT :: "jsval \<Rightarrow> bytes"
  CODE2D_FORMAT :: "jsstring \<Rightarrow> bytes"
  QR_LEVEL_L :: jsstring
  BITMAP_FORMAT :: "jsstring \<Rightarrow> bytes"
  GSV0_FORMAT :: "jsstring \<Rightarrow> bytes"
  QSPRINTER_BARCODE_MODE_ON :: bytes
  QSPRINTER_BARCODE_MODE_OFF :: bytes
  QSPRINTER_BARCODE_HEIGHT_DEFAULT :: bytes
  QSPRINTER_PIXEL_SIZE_CMD :: bytes
  QSPRINTER_PIXEL_SIZE_MIN :: int
  QSPRINTER_PIXEL_SIZE_MAX :: int
  QSPRINTER_PIXEL_SIZE_DEFAULT :: int
  QSPRINTER_VERSION_CMD :: bytes
  QSPRINTER_VERSION_MIN :: int
  QSPRINTER_VERSION_MAX :: int
  QSPRINTER_VERSION_DEFAULT :: int
  QSPRINTER_LEVEL_CMD :: bytes
  QSPRINTER_LEVEL_OPTIONS :: "jsstring \<Rightarrow> bytes"
  QSPRINTER_LEN_OFFSET :: int
  QSPRINTER_SAVEBUF_CMD_P1 :: bytes
  QSPRINTER_SAVEBUF_CMD_P2 :: bytes
  QSPRINTER_PRINTBUF_CMD_P1 :: bytes
  QSPRINTER_PRINTBUF_CMD_P2 :: bytes
  iconv_encode :: "jsstring \<Rightarrow> jsstring \<Rightarrow> bytes option"
  toUpperCase :: "jsstring \<Rightarrow> jsstring"
  toLowerCase :: "jsstring \<Rightarrow> jsstring"
  StringToNumber :: "jsstring \<Rightarrow> int option"
  MAX_STRING_LENGTH :: int
  STACK_DEPTH :: nat
  imageSync :: "jsstring \<Rightarrow> qr_options \<Rightarrow> bytes option"
  getPixels :: "bytes \<Rightarrow> jsstring \<Rightarrow> escpos_image option"

section \<open>The printer\<close>

text \<open>
  The fields of a \<open>Printer\<close>: \<open>this.buffer\<close>, \<open>this.encoding\<close>, \<open>this.width\<close>,
  \<open>this._model\<close>, the width given in \<open>this.options\<close> (\<open>None\<close> without options or
  without a width there), and the adapter, of which the model keeps the buffers it was
  asked to write, in order, and whether it was asked to close.
\<close>

record printer =
  this_buffer :: bytes
  this_encoding :: jsstring
  this_width :: int
  this_model :: jsval
  this_options_width :: "int option"
  adapter_written :: "bytes list"
  adapter_closed :: bool

text \<open>
  The errors the methods throw. The first five are thrown by \<open>throw\<close> statements of the
  source; the others come from the runtime or from another module: a \<open>TypeError\<close> for
  calling a method that a value does not have or for reading a property of \<open>undefined\<close>,
  a \<open>RangeError\<close> for a number outside the range of an integer write or of an array
  length, the error of \<open>iconv.encode\<close> for an encoding it does not know, the
  \<open>RangeError\<close> of a string that grows beyond the greatest length, the \<open>RangeError\<close> of
  a call for which the stack has no room, and an error thrown by \<open>qr.imageSync\<close>.
\<close>

datatype error =
    BarcodeTypeRequired
  | EAN13CodeLength
  | EAN8CodeLength
  | InvalidCodeLength
  | OnlyImageSupported
  | JsTypeError
  | OutOfRange
  | EncodingNotRecognized
  | StringTooLong
  | StackOverflow
  | QrImageError

text \<open>The errors thrown by a \<open>throw\<close> statement of the source.\<close>

fun explicit_throw :: "error \<Rightarrow> bool" where
  "explicit_throw BarcodeTypeRequired = True"
| "explicit_throw EAN13CodeLength = True"
| "explicit_throw EAN8CodeLength = True"
| "explicit_throw InvalidCodeLength = True"
| "explicit_throw OnlyImageSupported = True"
| "explicit_throw JsTypeError = False"
| "explicit_throw OutOfRange = False"
| "explicit_throw EncodingNotRecognized = False"
| "explicit_throw StringTooLong = False"
| "explicit_throw StackOverflow = False"
| "explicit_throw QrImageError = False"

text \<open>
  The errors of the kind the specification calls \<open>InvalidArgument\<close>: those a call
  raises for the value of an argument. They are the errors of the \<open>throw\<close> statements,
  the \<open>TypeError\<close> for an argument of the wrong type (a barcode type or a mode that is
  not a string) and the \<open>RangeError\<close> for a number that is out of range (a QR payload
  whose declared length does not fit 16 bits).
\<close>

fun InvalidArgument :: "error \<Rightarrow> bool" where
  "InvalidArgument BarcodeTypeRequired = True"
| "InvalidArgument EAN13CodeLength = True"
| "InvalidArgument EAN8CodeLength = True"
| "InvalidArgument InvalidCodeLength = True"
| "InvalidArgument OnlyImageSupported = True"
| "InvalidArgument JsTypeError = True"
| "InvalidArgument OutOfRange = True"
| "InvalidArgument EncodingNotRecognized = False"
| "InvalidArgument StringTooLong = False"
| "InvalidArgument StackOverflow = False"
| "InvalidArgument QrImageError = False"

text \<open>
  A method returns the printer (\<open>Inr\<close>), or throws (\<open>Inl\<close>): the error, and the printer
  as the method left it when it threw.
\<close>

type_synonym result = "(error \<times> printer) + printer"

definition and_then :: "result \<Rightarrow> (printer \<Rightarrow> result) \<Rightarrow> result" where
  "and_then r f = (case r of Inl e \<Rightarrow> Inl e | Inr p \<Rightarrow> f p)"

subsection \<open>Conversions\<close>

fun ToNumber :: "env \<Rightarrow> jsval \<Rightarrow> int option" where
  "ToNumber e Undefined = None"
| "ToNumber e Null = Some 0"
| "ToNumber e (Bool b) = Some (if b then 1 else 0)"
| "ToNumber e (Num n) = Some n"
| "ToNumber e (Str s) = StringToNumber e s"

text \<open>\<^verbatim>\<open>v >= lo && v <= hi\<close> for numbers \<open>lo\<close> and \<open>hi\<close>.\<close>

definition between :: "env \<Rightarrow> int \<Rightarrow> int \<Rightarrow> jsval \<Rightarrow> bool" where
  "between e lo hi v = (case ToNumber e v of None \<Rightarrow> False | Some n \<Rightarrow> lo \<le> n \<and> n \<le> hi)"

text \<open>\<open>v.toUpperCase()\<close>: only a string has the method.\<close>

fun call_toUpperCase :: "env \<Rightarrow> jsval \<Rightarrow> error + jsstring" where
  "call_toUpperCase e (Str s) = Inr (toUpperCase e s)"
| "call_toUpperCase e v = Inl JsTypeError"

subsection \<open>Writing into the buffer\<close>

text \<open>\<open>this.buffer.write\<close> of a \<open>Buffer\<close> or an array of bytes, and of a string.\<close>

definition buffer_write :: "bytes \<Rightarrow> printer \<Rightarrow> printer" where
  "buffer_write bs p = p\<lparr>this_buffer := this_buffer p @ bs\<rparr>"

definition write_string :: "jsstring \<Rightarrow> printer \<Rightarrow> printer" where
  "write_string s p = buffer_write (utf8_encode s) p"

text \<open>
  \<open>this.buffer.writeUInt8(value)\<close> and \<open>this.buffer.writeUInt16LE(value)\<close>: the value is
  converted to a number, a number outside the range throws, \<open>NaN\<close> is stored as 0.
\<close>

definition writeUInt8 :: "env \<Rightarrow> jsval \<Rightarrow> printer \<Rightarrow> result" where
  "writeUInt8 e v p =
     (case ToNumber e v of
        None \<Rightarrow> Inr (buffer_write [0] p)
      | Some n \<Rightarrow> if n > 255 \<or> n < 0 then Inl (OutOfRange, p) else Inr (buffer_write [of_int n] p))"

definition writeUInt16LE :: "int \<Rightarrow> printer \<Rightarrow> result" where
  "writeUInt16LE n p =
     (if n > 65535 \<or> n < 0 then Inl (OutOfRange, p)
      else Inr (buffer_write [of_int (n mod 256), of_int (n div 256)] p))"

subsection \<open>State and simple commands\<close>

definition model :: "jsval \<Rightarrow> printer \<Rightarrow> result" where
  "model m p = Inr (p\<lparr>this_model := m\<rparr>)"

definition encode :: "jsstring \<Rightarrow> printer \<Rightarrow> result" where
  "encode encoding p = Inr (p\<lparr>this_encoding := encoding\<rparr>)"

definition setCharacterCodeTable :: "env \<Rightarrow> jsval \<Rightarrow> printer \<Rightarrow> result" where
  "setCharacterCodeTable e codeTable p = writeUInt8 e codeTable (buffer_write (TAB e) (buffer_write (ESC e) p))"

definition marginBottom :: "env \<Rightarrow> jsval \<Rightarrow> printer \<Rightarrow> result" where
  "marginBottom e n p = writeUInt8 e n (buffer_write (MARGINS e (js ''BOTTOM'')) p)"

definition marginLeft :: "env \<Rightarrow> jsval \<Rightarrow> printer \<Rightarrow> result" where
  "marginLeft e n p = writeUInt8 e n (buffer_write (MARGINS e (js ''LEFT'')) p)"

definition marginRight :: "env \<Rightarrow> jsval \<Rightarrow> printer \<Rightarrow> result" where
  "marginRight e n p = writeUInt8 e n (buffer_write (MARGINS e (js ''RIGHT'')) p)"

text \<open>\<open>print\<close> takes a \<open>Buffer\<close> or a string.\<close>

datatype content = Buf bytes | Txt jsstring

fun print :: "content \<Rightarrow> printer \<Rightarrow> result" where
  "print (Buf b) p = Inr (buffer_write b p)"
| "print (Txt s) p = Inr (write_string s p)"

definition println :: "env \<Rightarrow> jsstring \<Rightarrow> printer \<Rightarrow> result" where
  "println e content p = print (Txt (content @ EOL e)) p"

definition newLine :: "env \<Rightarrow> printer \<Rightarrow> result" where
  "newLine e p = print (Txt (EOL e)) p"

text \<open>
  \<open>iconv.encode(content, encoding || this.encoding)\<close>: an absent or empty \<open>encoding\<close>
  argument selects the encoding of the session.
\<close>

definition encoding_or :: "jsstring option \<Rightarrow> printer \<Rightarrow> jsstring" where
  "encoding_or encoding p =
     (case encoding of None \<Rightarrow> this_encoding p | Some enc \<Rightarrow> if enc = [] then this_encoding p else enc)"

definition text_op :: "env \<Rightarrow> jsstring \<Rightarrow> jsstring option \<Rightarrow> printer \<Rightarrow> result" where
  "text_op e content encoding p =
     (case iconv_encode e (content @ EOL e) (encoding_or encoding p) of
        None \<Rightarrow> Inl (EncodingNotRecognized, p)
      | Some b \<Rightarrow> print (Buf b) p)"

definition pureText :: "env \<Rightarrow> jsstring \<Rightarrow> jsstring option \<Rightarrow> printer \<Rightarrow> result" where
  "pureText e content encoding p =
     (case iconv_encode e content (encoding_or encoding p) of
        None \<Rightarrow> Inl (EncodingNotRecognized, p)
      | Some b \<Rightarrow> print (Buf b) p)"

text \<open>
  \<open>drawLine\<close>: \<^verbatim>\<open>for (var i = 0; i < this.width; i++) this.buffer.write(Buffer.from("-"))\<close>,
  then \<open>newLine\<close>.
\<close>

function drawLine_loop :: "int \<Rightarrow> printer \<Rightarrow> printer" where
  "drawLine_loop i p = (if i < this_width p then drawLine_loop (i + 1) (buffer_write [0x2D] p) else p)"
  by pat_completeness auto
termination
  by (relation "measure (\<lambda>(i, p). nat (this_width p - i))") (auto simp: buffer_write_def)

declare drawLine_loop.simps [simp del]

definition drawLine :: "env \<Rightarrow> printer \<Rightarrow> result" where
  "drawLine e p = newLine e (drawLine_loop 0 p)"

text \<open>
  \<open>feed\<close>: \<^verbatim>\<open>new Array(n || 1).fill(_.EOL).join('')\<close>. A number is the length of the
  array, and must be a valid one; any other value becomes the only element of an array
  of length 1.
\<close>

definition feed :: "env \<Rightarrow> jsval \<Rightarrow> printer \<Rightarrow> result" where
  "feed e n p =
     (case or_else n (Num 1) of
        Num k \<Rightarrow> if k < 0 \<or> 4294967295 < k then Inl (OutOfRange, p)
                 else Inr (write_string (concat (replicate (nat k) (EOL e))) p)
      | v \<Rightarrow> Inr (write_string (EOL e) p))"

definition control :: "env \<Rightarrow> jsval \<Rightarrow> printer \<Rightarrow> result" where
  "control e ctrl p =
     (case call_toUpperCase e ctrl of
        Inl err \<Rightarrow> Inl (err, p)
      | Inr c \<Rightarrow> Inr (buffer_write (FEED_CONTROL_SEQUENCES e (js ''CTL_'' @ c)) p))"

definition align :: "env \<Rightarrow> jsval \<Rightarrow> printer \<Rightarrow> result" where
  "align e a p =
     (case call_toUpperCase e a of
        Inl err \<Rightarrow> Inl (err, p)
      | Inr c \<Rightarrow> Inr (buffer_write (TEXT_FORMAT e (js ''TXT_ALIGN_'' @ c)) p))"

text \<open>
  \<open>font\<close> also sets \<open>this.width\<close>: \<^verbatim>\<open>this.options && this.options.width || 42\<close> for
  family A, and 56 in place of 42 for the others.
\<close>

definition options_width_or :: "printer \<Rightarrow> int \<Rightarrow> int" where
  "options_width_or p d =
     (case this_options_width p of None \<Rightarrow> d | Some w \<Rightarrow> if w \<noteq> 0 then w else d)"

definition font :: "env \<Rightarrow> jsval \<Rightarrow> printer \<Rightarrow> result" where
  "font e family p =
     (case call_toUpperCase e family of
        Inl err \<Rightarrow> Inl (err, p)
      | Inr f \<Rightarrow>
          (let p1 = buffer_write (TEXT_FORMAT e (js ''TXT_FONT_'' @ f)) p
           in if f = js ''A''
              then Inr (p1\<lparr>this_width := options_width_or p1 42\<rparr>)
              else Inr (p1\<lparr>this_width := options_width_or p1 56\<rparr>)))"

text \<open>\<open>style\<close>: bold, italic and underline commands chosen by a \<open>switch\<close>.\<close>

definition style_keys :: "jsstring \<Rightarrow> string \<times> string \<times> string" where
  "style_keys t =
     (if t = js ''B'' then (''TXT_BOLD_ON'', ''TXT_ITALIC_OFF'', ''TXT_UNDERL_OFF'')
      else if t = js ''I'' then (''TXT_BOLD_OFF'', ''TXT_ITALIC_ON'', ''TXT_UNDERL_OFF'')
      else if t = js ''U'' then (''TXT_BOLD_OFF'', ''TXT_ITALIC_OFF'', ''TXT_UNDERL_ON'')
      else if t = js ''U2'' then (''TXT_BOLD_OFF'', ''TXT_ITALIC_OFF'', ''TXT_UNDERL2_ON'')
      else if t = js ''BI'' then (''TXT_BOLD_ON'', ''TXT_ITALIC_ON'', ''TXT_UNDERL_OFF'')
      else if t = js ''BIU'' then (''TXT_BOLD_ON'', ''TXT_ITALIC_ON'', ''TXT_UNDERL_ON'')
      else if t = js ''BIU2'' then (''TXT_BOLD_ON'', ''TXT_ITALIC_ON'', ''TXT_UNDERL2_ON'')
      else if t = js ''BU'' then (''TXT_BOLD_ON'', ''TXT_ITALIC_OFF'', ''TXT_UNDERL_ON'')
      else if t = js ''BU2'' then (''TXT_BOLD_ON'', ''TXT_ITALIC_OFF'', ''TXT_UNDERL2_ON'')
      else if t = js ''IU'' then (''TXT_BOLD_OFF'', ''TXT_ITALIC_ON'', ''TXT_UNDERL_ON'')
      else if t = js ''IU2'' then (''TXT_BOLD_OFF'', ''TXT_ITALIC_ON'', ''TXT_UNDERL2_ON'')
      else (''TXT_BOLD_OFF'', ''TXT_ITALIC_OFF'', ''TXT_UNDERL_OFF''))"

definition style :: "env \<Rightarrow> jsval \<Rightarrow> printer \<Rightarrow> result" where
  "style e type p =
     (case call_toUpperCase e type of
        Inl err \<Rightarrow> Inl (err, p)
      | Inr t \<Rightarrow>
          (case style_keys t of
             (bold, italic, underline) \<Rightarrow>
               Inr (buffer_write (TEXT_FORMAT e (js underline))
                     (buffer_write (TEXT_FORMAT e (js italic))
                       (buffer_write (TEXT_FORMAT e (js bold)) p)))))"

text \<open>\<open>spacing\<close> and \<open>lineSpace\<close>: the default command without an argument.\<close>

definition spacing :: "env \<Rightarrow> jsval \<Rightarrow> printer \<Rightarrow> result" where
  "spacing e n p =
     (if n = Undefined \<or> n = Null then Inr (buffer_write (CHARACTER_SPACING e (js ''CS_DEFAULT'')) p)
      else writeUInt8 e n (buffer_write (CHARACTER_SPACING e (js ''CS_SET'')) p))"

definition lineSpace :: "env \<Rightarrow> jsval \<Rightarrow> printer \<Rightarrow> result" where
  "lineSpace e n p =
     (if n = Undefined \<or> n = Null then Inr (buffer_write (LINE_SPACING e (js ''LS_DEFAULT'')) p)
      else writeUInt8 e n (buffer_write (LINE_SPACING e (js ''LS_SET'')) p))"

definition hardware :: "env \<Rightarrow> jsval \<Rightarrow> printer \<Rightarrow> result" where
  "hardware e hw p =
     (case call_toUpperCase e hw of
        Inl err \<Rightarrow> Inl (err, p)
      | Inr h \<Rightarrow> Inr (buffer_write (HARDWARE e (js ''HW_'' @ h)) p))"

definition beep :: "env \<Rightarrow> jsval \<Rightarrow> jsval \<Rightarrow> printer \<Rightarrow> result" where
  "beep e n t p = and_then (writeUInt8 e n (buffer_write (BEEP e) p)) (writeUInt8 e t)"

definition cut :: "env \<Rightarrow> jsval \<Rightarrow> jsval \<Rightarrow> printer \<Rightarrow> result" where
  "cut e part n p =
     and_then (feed e (or_else n (Num 3)) p)
       (\<lambda>p1. Inr (buffer_write (PAPER e (if truthy part then js ''PAPER_PART_CUT'' else js ''PAPER_FULL_CUT'')) p1))"

definition setReverseColors :: "env \<Rightarrow> jsval \<Rightarrow> printer \<Rightarrow> result" where
  "setReverseColors e b p =
     Inr (buffer_write (if truthy b then COLOR e (js ''REVERSE'') else COLOR e (js ''UNREVERSE'')) p)"

text \<open>
  \<open>raw\<close>: a \<open>Buffer\<close> is written as it is; a string is lower-cased, stripped of white
  space and colons, and decoded as hexadecimal; any other value is ignored.
\<close>

definition js_whitespace :: "char16 \<Rightarrow> bool" where
  "js_whitespace c =
     ((0x09 \<le> c \<and> c \<le> 0x0D) \<or> c = 0x20 \<or> c = 0xA0 \<or> c = 0x1680
      \<or> (0x2000 \<le> c \<and> c \<le> 0x200A) \<or> c = 0x2028 \<or> c = 0x2029 \<or> c = 0x202F
      \<or> c = 0x205F \<or> c = 0x3000 \<or> c = 0xFEFF)"

datatype raw_data = RawBuffer bytes | RawString jsstring | RawOther

fun raw :: "env \<Rightarrow> raw_data \<Rightarrow> printer \<Rightarrow> result" where
  "raw e (RawBuffer b) p = Inr (buffer_write b p)"
| "raw e (RawString s) p =
     Inr (buffer_write (Buffer_from_hex (filter (\<lambda>c. \<not> (js_whitespace c \<or> c = 0x3A)) (toLowerCase e s))) p)"
| "raw e RawOther p = Inr p"

subsection \<open>barcode\<close>

text \<open>
  The third argument of \<open>barcode\<close> is an options object or, in the older calling
  convention, the width, followed by height, position and font as further arguments.
\<close>

record barcode_options =
  opt_width :: jsval
  opt_height :: jsval
  opt_position :: jsval
  opt_font :: jsval
  opt_includeParity :: jsval

datatype barcode_arg = Val jsval | Obj barcode_options

text \<open>
  Lines 535 to 550: \<open>width\<close>, \<open>height\<close>, \<open>position\<close>, \<open>font\<close> and \<open>includeParity\<close>.
  With a string or a number as third argument the four values are the arguments 2 to 5
  and \<open>includeParity\<close> stays \<open>undefined\<close>; otherwise they are properties of the options
  (all \<open>undefined\<close> when the third argument is not an object) and \<open>includeParity\<close> is
  \<^verbatim>\<open>options.includeParity !== false\<close>.
\<close>

fun barcode_arguments ::
  "barcode_arg \<Rightarrow> jsval \<Rightarrow> jsval \<Rightarrow> jsval \<Rightarrow> jsval \<times> jsval \<times> jsval \<times> jsval \<times> jsval" where
  "barcode_arguments (Val (Num n)) a3 a4 a5 = (Num n, a3, a4, a5, Undefined)"
| "barcode_arguments (Val (Str s)) a3 a4 a5 = (Str s, a3, a4, a5, Undefined)"
| "barcode_arguments (Val v) a3 a4 a5 = (Undefined, Undefined, Undefined, Undefined, Bool True)"
| "barcode_arguments (Obj options) a3 a4 a5 =
     (opt_width options, opt_height options, opt_position options, opt_font options,
      Bool (opt_includeParity options \<noteq> Bool False))"

text \<open>\<open>str.replace('-', '_')\<close>: the first hyphen becomes an underscore.\<close>

fun replace_hyphen :: "jsstring \<Rightarrow> jsstring" where
  "replace_hyphen [] = []"
| "replace_hyphen (c # cs) = (if c = 0x2D then 0x5F # cs else c # replace_hyphen cs)"

text \<open>
  \<^verbatim>\<open>(type || 'EAN13').replace('-', '_').toUpperCase()\<close>, for a \<open>type\<close> that is already
  truthy.
\<close>

fun barcode_type_key :: "env \<Rightarrow> jsval \<Rightarrow> error + jsstring" where
  "barcode_type_key e (Str s) = Inr (toUpperCase e (replace_hyphen s))"
| "barcode_type_key e v = Inl JsTypeError"

text \<open>
  Lines 563 to 594, the commands before the payload: barcode mode (QSPrinter), width,
  height, font, text position and symbology.
\<close>

definition barcode_setup ::
  "env \<Rightarrow> jsval \<Rightarrow> jsval \<Rightarrow> jsval \<Rightarrow> jsval \<Rightarrow> jsval \<Rightarrow> printer \<Rightarrow> result" where
  "barcode_setup e type w h position fnt p =
     (let qs = (this_model p = Str (js ''qsprinter''));
          p1 = (if qs then buffer_write (QSPRINTER_BARCODE_MODE_ON e) p else p);
          p2 = (if qs then p1
                else if between e 1 5 w then buffer_write (BARCODE_WIDTH e w) p1
                else buffer_write (BARCODE_FORMAT e (js ''BARCODE_WIDTH_DEFAULT'')) p1);
          p3 = (if between e 1 255 h then buffer_write (BARCODE_HEIGHT e h) p2
                else if qs then buffer_write (QSPRINTER_BARCODE_HEIGHT_DEFAULT e) p2
                else buffer_write (BARCODE_FORMAT e (js ''BARCODE_HEIGHT_DEFAULT'')) p2)
      in and_then
           (if qs then Inr p3
            else (case call_toUpperCase e (or_else fnt (Str (js ''A''))) of
                    Inl err \<Rightarrow> Inl (err, p3)
                  | Inr f \<Rightarrow> Inr (buffer_write (BARCODE_FORMAT e (js ''BARCODE_FONT_'' @ f)) p3)))
           (\<lambda>p4. case call_toUpperCase e (or_else position (Str (js ''BLW''))) of
                    Inl err \<Rightarrow> Inl (err, p4)
                  | Inr pos \<Rightarrow>
                      (let p5 = buffer_write (BARCODE_FORMAT e (js ''BARCODE_TXT_'' @ pos)) p4
                       in case barcode_type_key e type of
                            Inl err \<Rightarrow> Inl (err, p5)
                          | Inr k \<Rightarrow> Inr (buffer_write (BARCODE_FORMAT e (js ''BARCODE_'' @ k)) p5))))"

text \<open>
  Lines 595 to 603, the payload frame:
  \<^verbatim>\<open>codeLength + code + (includeParity ? parityBit : '') + '\x00'\<close>.
\<close>

definition barcode_frame :: "jsstring \<Rightarrow> jsval \<Rightarrow> jsval \<Rightarrow> jsstring" where
  "barcode_frame code type includeParity =
     (let parityBit =
            (if truthy includeParity \<and> (type = Str (js ''EAN13'') \<or> type = Str (js ''EAN8''))
             then getParityBit code else []);
          codeLen =
            (if type = Str (js ''CODE128'') \<or> type = Str (js ''CODE93'') then codeLength code else [])
      in codeLen @ code @ (if truthy includeParity then parityBit else []) @ [0x00])"

text \<open>
  Lines 604 to 606: a QSPrinter leaves the barcode mode after the payload.
\<close>

definition mode_off :: "env \<Rightarrow> printer \<Rightarrow> printer" where
  "mode_off e p =
     (if this_model p = Str (js ''qsprinter'') then buffer_write (QSPRINTER_BARCODE_MODE_OFF e) p else p)"

definition barcode ::
  "env \<Rightarrow> jsstring \<Rightarrow> jsval \<Rightarrow> barcode_arg \<Rightarrow> jsval \<Rightarrow> jsval \<Rightarrow> jsval \<Rightarrow> printer \<Rightarrow> result" where
  "barcode e code type0 a2 a3 a4 a5 p =
     (case barcode_arguments a2 a3 a4 a5 of
        (w, h, position, fnt, includeParity) \<Rightarrow>
          (let type = or_else type0 (Str (js ''EAN13''));
               convertCode = code
           in if type = Undefined \<or> type = Null then Inl (BarcodeTypeRequired, p)
              else if type = Str (js ''EAN13'') \<and> length convertCode \<noteq> 12 then Inl (EAN13CodeLength, p)
              else if type = Str (js ''EAN8'') \<and> length convertCode \<noteq> 7 then Inl (EAN8CodeLength, p)
              else and_then (barcode_setup e type w h position fnt p)
                     (\<lambda>p1. Inr (mode_off e (write_string (barcode_frame code type includeParity) p1)))))"

subsection \<open>qrcode\<close>

text \<open>
  The size and the version on the QSPrinter path: the default for a falsy value or one
  that is not a number, otherwise the number clamped to the bounds of the model.
\<close>

fun qsprinter_number :: "jsval \<Rightarrow> int \<Rightarrow> int \<Rightarrow> int \<Rightarrow> int" where
  "qsprinter_number (Num n) dflt lo hi =
     (if n = 0 then dflt else if n < lo then lo else if n > hi then hi else n)"
| "qsprinter_number v dflt lo hi = dflt"

text \<open>
  The level on the QSPrinter path: the default for a falsy value or one that is not a
  string.
\<close>

fun qsprinter_level :: "env \<Rightarrow> jsval \<Rightarrow> jsstring" where
  "qsprinter_level e (Str s) = (if s = [] then QR_LEVEL_L e else s)"
| "qsprinter_level e v = QR_LEVEL_L e"

definition qrcode :: "env \<Rightarrow> jsstring \<Rightarrow> jsval \<Rightarrow> jsval \<Rightarrow> jsval \<Rightarrow> printer \<Rightarrow> result" where
  "qrcode e code version level sz p =
     (if this_model p \<noteq> Str (js ''qsprinter'') then
        (let p1 = buffer_write (CODE2D_FORMAT e (js ''TYPE_QR'')) p;
             p2 = buffer_write (CODE2D_FORMAT e (js ''CODE2D'')) p1
         in and_then (writeUInt8 e (or_else version (Num 3)) p2)
              (\<lambda>p3. case call_toUpperCase e (or_else level (Str (js ''L''))) of
                       Inl err \<Rightarrow> Inl (err, p3)
                     | Inr l \<Rightarrow>
                         and_then
                           (writeUInt8 e (or_else sz (Num 6))
                              (buffer_write (CODE2D_FORMAT e (js ''QR_LEVEL_'' @ l)) p3))
                           (\<lambda>p4. and_then (writeUInt16LE (int (length code)) p4)
                                    (\<lambda>p5. Inr (write_string code p5)))))
      else
        (case iconv_encode e code (js ''utf8'') of
           None \<Rightarrow> Inl (EncodingNotRecognized, p)
         | Some dataRaw \<Rightarrow>
             if length dataRaw < 1 \<and> length dataRaw > 2710 then Inl (InvalidCodeLength, p)
             else
               and_then
                 (writeUInt8 e
                    (Num (qsprinter_number sz (QSPRINTER_PIXEL_SIZE_DEFAULT e)
                            (QSPRINTER_PIXEL_SIZE_MIN e) (QSPRINTER_PIXEL_SIZE_MAX e)))
                    (buffer_write (QSPRINTER_PIXEL_SIZE_CMD e) p))
                 (\<lambda>p1. and_then
                    (writeUInt8 e
                       (Num (qsprinter_number version (QSPRINTER_VERSION_DEFAULT e)
                               (QSPRINTER_VERSION_MIN e) (QSPRINTER_VERSION_MAX e)))
                       (buffer_write (QSPRINTER_VERSION_CMD e) p1))
                    (\<lambda>p2.
                       let p3 = buffer_write (QSPRINTER_LEVEL_CMD e) p2;
                           p4 = buffer_write
                                  (QSPRINTER_LEVEL_OPTIONS e (toUpperCase e (qsprinter_level e level))) p3;
                           p5 = buffer_write (QSPRINTER_SAVEBUF_CMD_P1 e) p4
                       in and_then (writeUInt16LE (int (length dataRaw) + QSPRINTER_LEN_OFFSET e) p5)
                            (\<lambda>p6.
                               let p7 = buffer_write (QSPRINTER_SAVEBUF_CMD_P2 e) p6;
                                   p8 = buffer_write dataRaw p7;
                                   p9 = buffer_write (QSPRINTER_PRINTBUF_CMD_P1 e) p8
                               in and_then
                                    (writeUInt16LE (int (length dataRaw) + QSPRINTER_LEN_OFFSET e) p9)
                                    (\<lambda>p10. Inr (buffer_write (QSPRINTER_PRINTBUF_CMD_P2 e) p10)))))))"

subsection \<open>image and raster\<close>

text \<open>
  One line of the bitmap in \<open>image\<close>: header, 16-bit column count, the line, end of
  line. Each line is written by an \<open>async\<close> callback of \<open>forEach\<close>, which runs up to its
  \<open>await\<close> before the next one starts; a callback that throws ends there and the loop
  goes on with the next line.
\<close>

definition image_line :: "env \<Rightarrow> bytes \<Rightarrow> int \<Rightarrow> printer \<Rightarrow> bytes \<Rightarrow> printer" where
  "image_line e header n p line =
     (let p1 = buffer_write header p
      in case writeUInt16LE (int (length line) div n) p1 of
           Inl (err, q) \<Rightarrow> q
         | Inr p2 \<Rightarrow> write_string (EOL e) (buffer_write line p2))"

definition image_op :: "env \<Rightarrow> image_arg \<Rightarrow> jsval \<Rightarrow> printer \<Rightarrow> result" where
  "image_op e img density0 p =
     (case img of
        NotAnImage \<Rightarrow> Inl (OnlyImageSupported, p)
      | Image i \<Rightarrow>
          (let density = or_else density0 (Str (js ''d24''));
               n = (if density = Str (js ''d8'') \<or> density = Str (js ''s8'') then 1 else 3)
           in case call_toUpperCase e density of
                Inl err \<Rightarrow> Inl (err, p)
              | Inr d \<Rightarrow>
                  (let header = BITMAP_FORMAT e (js ''BITMAP_'' @ d);
                       bitmap = toBitmap i (n * 8)
                   in and_then (lineSpace e (Num 0) p)
                        (\<lambda>p1. lineSpace e Undefined (foldl (image_line e header n) p1 bitmap)))))"

definition raster :: "env \<Rightarrow> image_arg \<Rightarrow> jsval \<Rightarrow> printer \<Rightarrow> result" where
  "raster e img mode0 p =
     (case img of
        NotAnImage \<Rightarrow> Inl (OnlyImageSupported, p)
      | Image i \<Rightarrow>
          (let mode1 = or_else mode0 (Str (js ''normal''));
               mode = (if mode1 = Str (js ''dhdw'') \<or> mode1 = Str (js ''dwh'') \<or> mode1 = Str (js ''dhw'')
                       then Str (js ''dwdh'') else mode1)
           in case call_toUpperCase e mode of
                Inl err \<Rightarrow> Inl (err, p)
              | Inr m \<Rightarrow>
                  and_then (writeUInt16LE (raster_width i) (buffer_write (GSV0_FORMAT e (js ''GSV0_'' @ m)) p))
                    (\<lambda>p1. and_then (writeUInt16LE (raster_height i) p1)
                             (\<lambda>p2. Inr (buffer_write (raster_data i) p2)))))"

subsection \<open>flush and close\<close>

text \<open>
  \<open>flush\<close> takes the whole content out of the buffer, which is empty afterwards, and
  hands it to the adapter in one \<open>write\<close>. \<open>close\<close> flushes and closes the adapter when
  the write is done.
\<close>

definition flush :: "printer \<Rightarrow> result" where
  "flush p =
     (let buf = this_buffer p
      in Inr (p\<lparr>this_buffer := [], adapter_written := adapter_written p @ [buf]\<rparr>))"

definition close :: "printer \<Rightarrow> result" where
  "close p = and_then (flush p) (\<lambda>p1. Inr (p1\<lparr>adapter_closed := True\<rparr>))"

subsection \<open>Numbers that are not integers\<close>

text \<open>
  The widths in \<open>table\<close> and \<open>tableCustom\<close> need not be integers. A JavaScript number
  is an IEEE 754 double: every arithmetic operation rounds its exact result to the
  nearest double, to the one with the even significand when two are equally near.
  \<open>Fin m e\<close> is the finite double \<open>m * 2 ^ e\<close>, with \<open>m\<close> odd, or with \<open>m\<close> and \<open>e\<close>
  both 0 for zero (the two zeros are one).
\<close>

datatype double = NaN | PosInf | NegInf | Fin int int

function finite :: "int \<Rightarrow> int \<Rightarrow> double" where
  "finite m e =
     (if m = 0 then Fin 0 0 else if even m then finite (m div 2) (e + 1) else Fin m e)"
  by pat_completeness auto
termination
  by (relation "measure (\<lambda>(m, e). nat \<bar>m\<bar>)") auto

declare finite.simps [simp del]

text \<open>The number of binary digits of a positive integer.\<close>

function bit_length :: "int \<Rightarrow> int" where
  "bit_length n = (if 0 < n then bit_length (n div 2) + 1 else 0)"
  by pat_completeness auto
termination
  by (relation "measure nat") auto

declare bit_length.simps [simp del]

text \<open>
  The double nearest to the fraction \<open>n / d\<close>, for \<open>d\<close> positive. With \<open>ex\<close> the
  exponent of the fraction (\<open>2 ^ ex \<le> \<bar>n\<bar> / d < 2 ^ (ex + 1)\<close>), the double is a
  multiple of \<open>2 ^ q\<close>, which leaves it 53 significant bits, or of \<open>2 ^ - 1074\<close>, the
  least positive double; the fraction is rounded to the nearest multiple, to the even
  one when two are equally near, and the result is infinite when it reaches
  \<open>2 ^ 1024\<close>.
\<close>

definition round_ratio :: "int \<Rightarrow> int \<Rightarrow> double" where
  "round_ratio n d =
     (if n = 0 then Fin 0 0
      else
        (let a = \<bar>n\<bar>;
             k = bit_length a - bit_length d;
             ex = (if (if 0 \<le> k then d * 2 ^ nat k \<le> a else d \<le> a * 2 ^ nat (- k))
                   then k else k - 1);
             q = max (ex - 52) (- 1074);
             num = (if 0 \<le> q then a else a * 2 ^ nat (- q));
             den = (if 0 \<le> q then d * 2 ^ nat q else d);
             f = num div den;
             r = num mod den;
             m = (if 2 * r < den then f else if den < 2 * r then f + 1
                  else if even f then f else f + 1)
         in if 1024 < bit_length m + q then (if 0 < n then PosInf else NegInf)
            else finite (if 0 < n then m else - m) q))"

text \<open>
  The double nearest to \<open>m * 2 ^ e\<close>, and the double nearest to a rational, which is
  the value of a decimal literal.
\<close>

definition round_scaled :: "int \<Rightarrow> int \<Rightarrow> double" where
  "round_scaled m e = (if 0 \<le> e then round_ratio (m * 2 ^ nat e) 1 else round_ratio m (2 ^ nat (- e)))"

definition to_double :: "rat \<Rightarrow> double" where
  "to_double x = round_ratio (fst (quotient_of x)) (snd (quotient_of x))"

text \<open>
  \<open>x * y\<close>, \<open>x - y\<close>, \<open>x / y\<close> and \<open>x < y\<close>. The source divides by a length and by 2
  only, so that a divisor that is zero is the positive zero.
\<close>

fun double_mul :: "double \<Rightarrow> double \<Rightarrow> double" where
  "double_mul (Fin m1 e1) (Fin m2 e2) = round_scaled (m1 * m2) (e1 + e2)"
| "double_mul NaN y = NaN"
| "double_mul x NaN = NaN"
| "double_mul (Fin m e) PosInf = (if m = 0 then NaN else if 0 < m then PosInf else NegInf)"
| "double_mul (Fin m e) NegInf = (if m = 0 then NaN else if 0 < m then NegInf else PosInf)"
| "double_mul PosInf (Fin m e) = (if m = 0 then NaN else if 0 < m then PosInf else NegInf)"
| "double_mul NegInf (Fin m e) = (if m = 0 then NaN else if 0 < m then NegInf else PosInf)"
| "double_mul PosInf PosInf = PosInf"
| "double_mul PosInf NegInf = NegInf"
| "double_mul NegInf PosInf = NegInf"
| "double_mul NegInf NegInf = PosInf"

fun double_sub :: "double \<Rightarrow> double \<Rightarrow> double" where
  "double_sub (Fin m1 e1) (Fin m2 e2) =
     (let e = min e1 e2 in round_scaled (m1 * 2 ^ nat (e1 - e) - m2 * 2 ^ nat (e2 - e)) e)"
| "double_sub NaN y = NaN"
| "double_sub x NaN = NaN"
| "double_sub PosInf PosInf = NaN"
| "double_sub NegInf NegInf = NaN"
| "double_sub PosInf y = PosInf"
| "double_sub NegInf y = NegInf"
| "double_sub (Fin m e) PosInf = NegInf"
| "double_sub (Fin m e) NegInf = PosInf"

fun double_div :: "double \<Rightarrow> double \<Rightarrow> double" where
  "double_div (Fin m1 e1) (Fin m2 e2) =
     (if m2 = 0 then (if m1 = 0 then NaN else if 0 < m1 then PosInf else NegInf)
      else
        (let e = min e1 e2;
             n = m1 * 2 ^ nat (e1 - e);
             d = m2 * 2 ^ nat (e2 - e)
         in if 0 < d then round_ratio n d else round_ratio (- n) (- d)))"
| "double_div NaN y = NaN"
| "double_div x NaN = NaN"
| "double_div (Fin m e) PosInf = Fin 0 0"
| "double_div (Fin m e) NegInf = Fin 0 0"
| "double_div PosInf (Fin m e) = (if 0 \<le> m then PosInf else NegInf)"
| "double_div NegInf (Fin m e) = (if 0 \<le> m then NegInf else PosInf)"
| "double_div PosInf PosInf = NaN"
| "double_div PosInf NegInf = NaN"
| "double_div NegInf PosInf = NaN"
| "double_div NegInf NegInf = NaN"

fun double_less :: "double \<Rightarrow> double \<Rightarrow> bool" where
  "double_less (Fin m1 e1) (Fin m2 e2) =
     (let e = min e1 e2 in m1 * 2 ^ nat (e1 - e) < m2 * 2 ^ nat (e2 - e))"
| "double_less NaN y = False"
| "double_less x NaN = False"
| "double_less NegInf NegInf = False"
| "double_less NegInf y = True"
| "double_less PosInf y = False"
| "double_less (Fin m e) PosInf = True"
| "double_less (Fin m e) NegInf = False"

text \<open>The number of an integer and of a length, and the truthiness of a number.\<close>

definition double_of_int :: "int \<Rightarrow> double" where
  "double_of_int n = round_ratio n 1"

definition double_of_nat :: "nat \<Rightarrow> double" where
  "double_of_nat n = round_ratio (int n) 1"

definition double_truthy :: "double \<Rightarrow> bool" where
  "double_truthy x = (x \<noteq> NaN \<and> x \<noteq> Fin 0 0)"

text \<open>
  The index that \<open>substring\<close> makes of a number, for a string of \<open>len\<close> characters:
  truncated, 0 when negative or \<open>NaN\<close>, and at most \<open>len\<close>.
\<close>

fun clamp_index :: "double \<Rightarrow> nat \<Rightarrow> nat" where
  "clamp_index (Fin m e) len =
     min (nat (if 0 \<le> e then m * 2 ^ nat e else m div 2 ^ nat (- e))) len"
| "clamp_index PosInf len = len"
| "clamp_index NegInf len = 0"
| "clamp_index NaN len = 0"

subsection \<open>Strings of bounded length\<close>

text \<open>
  \<open>a + b\<close> for strings: a \<open>RangeError\<close> (here \<open>None\<close>) when the result is longer than
  the greatest length of a string.
\<close>

definition concat_limited :: "int \<Rightarrow> jsstring \<Rightarrow> jsstring \<Rightarrow> jsstring option" where
  "concat_limited limit a b =
     (if limit < int (length a) + int (length b) then None else Some (a @ b))"

text \<open>
  \<^verbatim>\<open>for (var j = 0; j < spaces; j++) { lineStr += " "; }\<close> for a \<open>spaces\<close> that need not
  be an integer and may be infinite: the loop ends when \<open>j\<close> reaches \<open>spaces\<close>, or with
  the \<open>RangeError\<close> of a string that is too long. The counter is a double as well, and
  adding 1 to \<open>2 ^ 53\<close> leaves it as it is.
\<close>

function pad_loop :: "int \<Rightarrow> int \<Rightarrow> double \<Rightarrow> jsstring \<Rightarrow> jsstring option" where
  "pad_loop limit j spaces lineStr =
     (if double_less (double_of_int j) spaces
      then (if limit \<le> int (length lineStr) then None
            else pad_loop limit (if j < 2 ^ 53 then j + 1 else j) spaces (lineStr @ [0x20]))
      else Some lineStr)"
  by pat_completeness auto
termination
  by (relation "measure (\<lambda>(limit, j, spaces, lineStr). nat (limit - int (length lineStr)))") auto

declare pad_loop.simps [simp del]

subsection \<open>The caller's objects and the pending callbacks\<close>

text \<open>
  A cell of \<open>tableCustom\<close> is an object of the caller: its text, the text it had before
  it was cut (\<open>originalText\<close>, absent until \<open>tableCustom\<close> sets it), its width as a
  fraction of the line (\<open>width\<close>) or in columns (\<open>cols\<close>), both numbers or absent, and
  its alignment. \<open>tableCustom\<close> assigns to \<open>text\<close> and \<open>originalText\<close> and hands the same
  objects to the call for the next line, so the model keeps the objects in a store, a
  list indexed by address, and the array \<open>data\<close> is a list of addresses. An address
  outside the store stands for an element that is \<open>undefined\<close>.
\<close>

record cell =
  cell_text :: jsstring
  cell_originalText :: "jsstring option"
  cell_width :: "rat option"
  cell_cols :: "rat option"
  cell_align :: "jsstring option"

text \<open>
  A call of \<open>getPixels\<close> that has not called back yet: what its callback will receive,
  and the \<open>mode\<close> of the \<open>qrimage\<close> that made the call.
\<close>

record pixels_callback =
  cb_pixels :: "escpos_image option"
  cb_mode :: jsval

text \<open>
  The state of a program that uses one printer: the printer, the cell objects, and the
  pending callbacks of \<open>getPixels\<close>. A method returns the state or throws, as a method
  of the printer does.
\<close>

record session =
  the_printer :: printer
  cell_objects :: "cell list"
  pending :: "pixels_callback list"

type_synonym outcome = "(error \<times> session) + session"

subsection \<open>tableCustom\<close>

text \<open>
  The width of the current cell (lines 255 to 259): a cell without \<open>width\<close> and
  \<open>cols\<close> keeps the width left by the cell before it.
\<close>

definition cols_cellWidth :: "double \<Rightarrow> cell \<Rightarrow> double" where
  "cols_cellWidth cellWidth obj =
     (case cell_cols obj of
        None \<Rightarrow> cellWidth
      | Some c \<Rightarrow> if double_truthy (to_double c) then to_double c else cellWidth)"

definition next_cellWidth :: "int \<Rightarrow> double \<Rightarrow> cell \<Rightarrow> double" where
  "next_cellWidth w cellWidth obj =
     (case cell_width obj of
        None \<Rightarrow> cols_cellWidth cellWidth obj
      | Some f \<Rightarrow> if double_truthy (to_double f) then double_mul (double_of_int w) (to_double f)
                  else cols_cellWidth cellWidth obj)"

text \<open>The text of one cell laid out in its width (lines 269 to 298).\<close>

definition layout_cell ::
  "int \<Rightarrow> double \<Rightarrow> jsstring option \<Rightarrow> jsstring \<Rightarrow> jsstring \<Rightarrow> jsstring option" where
  "layout_cell limit cellWidth alignment txt lineStr =
     (if alignment = Some (js ''CENTER'') then
        (let spaces = double_div (double_sub cellWidth (double_of_nat (length txt))) (Fin 1 1)
         in case pad_loop limit 0 spaces lineStr of
              None \<Rightarrow> None
            | Some l1 \<Rightarrow> (case concat_limited limit l1 txt of
                           None \<Rightarrow> None
                         | Some l2 \<Rightarrow> pad_loop limit 0 (double_sub spaces (Fin 1 0)) l2))
      else if alignment = Some (js ''RIGHT'') then
        (let spaces = double_sub cellWidth (double_of_nat (length txt))
         in case pad_loop limit 0 spaces lineStr of
              None \<Rightarrow> None
            | Some l1 \<Rightarrow> concat_limited limit l1 txt)
      else
        (let spaces = double_sub cellWidth (double_of_nat (length txt))
         in case concat_limited limit lineStr txt of
              None \<Rightarrow> None
            | Some l1 \<Rightarrow> pad_loop limit 0 spaces l1))"

text \<open>
  The loop over the cells (lines 250 to 310), with the variables it updates:
  \<open>cellWidth\<close>, \<open>lineStr\<close>, \<open>secondLine\<close> and \<open>secondLineEnabled\<close>, and the store of the
  cell objects. The loop throws when an element of \<open>data\<close> is \<open>undefined\<close> and when the
  line grows too long; the objects it has assigned to stay as they are then.
\<close>

fun tableCustom_cells ::
  "int \<Rightarrow> int \<Rightarrow> nat list \<Rightarrow> double \<Rightarrow> jsstring \<Rightarrow> nat list \<Rightarrow> bool \<Rightarrow> cell list
     \<Rightarrow> (error \<times> cell list) + (jsstring \<times> nat list \<times> bool \<times> cell list)" where
  "tableCustom_cells limit w [] cellWidth lineStr secondLine secondLineEnabled objs =
     Inr (lineStr, secondLine, secondLineEnabled, objs)"
| "tableCustom_cells limit w (a # rest) cellWidth0 lineStr secondLine secondLineEnabled objs =
     (if length objs \<le> a then Inl (JsTypeError, objs)
      else
        (let obj = objs ! a;
             cellWidth = next_cellWidth w cellWidth0 obj;
             originalText = cell_text obj;
             tooLong = double_less cellWidth (double_of_nat (length originalText));
             cutAt = clamp_index (double_sub cellWidth (Fin 1 0)) (length originalText);
             obj1 = (if tooLong
                     then obj\<lparr>cell_originalText := Some originalText, cell_text := take cutAt originalText\<rparr>
                     else obj)
         in case layout_cell limit cellWidth (cell_align obj1) (cell_text obj1) lineStr of
              None \<Rightarrow> Inl (StringTooLong, objs[a := obj1])
            | Some lineStr1 \<Rightarrow>
                if tooLong
                then tableCustom_cells limit w rest cellWidth lineStr1 (secondLine @ [a]) True
                       (objs[a := obj1\<lparr>cell_text := drop cutAt originalText\<rparr>])
                else tableCustom_cells limit w rest cellWidth lineStr1 (secondLine @ [a])
                       secondLineEnabled (objs[a := obj1\<lparr>cell_text := []\<rparr>])))"

definition tableCustom_row ::
  "int \<Rightarrow> int \<Rightarrow> nat list \<Rightarrow> cell list
     \<Rightarrow> (error \<times> cell list) + (jsstring \<times> nat list \<times> bool \<times> cell list)" where
  "tableCustom_row limit w data objs =
     tableCustom_cells limit w data (double_div (double_of_int w) (double_of_nat (length data))) [] [] False objs"

text \<open>
  \<open>tableCustom\<close> writes the line and calls itself for the second line, without the
  encoding. The recursion need not end (a text longer than a cell of width 1 is never
  consumed): then the calls nest until the stack has no room for the next one, which
  throws. \<open>depth\<close> is the number of nested calls that still fit.
\<close>

fun tableCustom_depth ::
  "nat \<Rightarrow> env \<Rightarrow> nat list \<Rightarrow> jsstring option \<Rightarrow> session \<Rightarrow> outcome" where
  "tableCustom_depth 0 e data encoding s = Inl (StackOverflow, s)"
| "tableCustom_depth (Suc depth) e data encoding s =
     (case tableCustom_row (MAX_STRING_LENGTH e) (this_width (the_printer s)) data (cell_objects s) of
        Inl (err, objs) \<Rightarrow> Inl (err, s\<lparr>cell_objects := objs\<rparr>)
      | Inr (lineStr, secondLine, secondLineEnabled, objs) \<Rightarrow>
          (case concat_limited (MAX_STRING_LENGTH e) lineStr (EOL e) of
             None \<Rightarrow> Inl (StringTooLong, s\<lparr>cell_objects := objs\<rparr>)
           | Some line \<Rightarrow>
               (case iconv_encode e line (encoding_or encoding (the_printer s)) of
                  None \<Rightarrow> Inl (EncodingNotRecognized, s\<lparr>cell_objects := objs\<rparr>)
                | Some b \<Rightarrow>
                    if secondLineEnabled
                    then tableCustom_depth depth e secondLine None
                           (s\<lparr>the_printer := buffer_write b (the_printer s), cell_objects := objs\<rparr>)
                    else Inr (s\<lparr>the_printer := buffer_write b (the_printer s),
                                cell_objects := objs\<rparr>))))"

definition tableCustom :: "env \<Rightarrow> nat list \<Rightarrow> jsstring option \<Rightarrow> session \<Rightarrow> outcome" where
  "tableCustom e data encoding s = tableCustom_depth (STACK_DEPTH e) e data encoding s"

subsection \<open>size, cashdraw, color and table\<close>

text \<open>\<^verbatim>\<open>k >= v\<close> and \<^verbatim>\<open>k == v\<close> for a number \<open>k\<close>.\<close>

definition at_most :: "env \<Rightarrow> int \<Rightarrow> jsval \<Rightarrow> bool" where
  "at_most e k v = (case ToNumber e v of None \<Rightarrow> False | Some n \<Rightarrow> n \<le> k)"

fun loose_eq :: "env \<Rightarrow> int \<Rightarrow> jsval \<Rightarrow> bool" where
  "loose_eq e k (Num n) = (n = k)"
| "loose_eq e k (Str s) = (StringToNumber e s = Some k)"
| "loose_eq e k (Bool b) = ((if b then 1 else 0) = k)"
| "loose_eq e k v = False"

definition size_op :: "env \<Rightarrow> jsval \<Rightarrow> jsval \<Rightarrow> printer \<Rightarrow> result" where
  "size_op e w h p =
     (if at_most e 2 w \<and> at_most e 2 h then
        (let p1 = buffer_write (TEXT_FORMAT e (js ''TXT_NORMAL'')) p
         in if loose_eq e 2 w \<and> loose_eq e 2 h
            then Inr (buffer_write (TEXT_FORMAT e (js ''TXT_4SQUARE'')) p1)
            else if loose_eq e 1 w \<and> loose_eq e 2 h
            then Inr (buffer_write (TEXT_FORMAT e (js ''TXT_2HEIGHT'')) p1)
            else if loose_eq e 2 w \<and> loose_eq e 1 h
            then Inr (buffer_write (TEXT_FORMAT e (js ''TXT_2WIDTH'')) p1)
            else Inr p1)
      else Inr (buffer_write (TXT_CUSTOM_SIZE e w h) p))"

text \<open>The string of a value, as \<open>+\<close> makes it when the other operand is a string.\<close>

definition String_int :: "int \<Rightarrow> jsstring" where
  "String_int n = (if n < 0 then 0x2D # String_nat (nat (- n)) else String_nat (nat n))"

fun ToString :: "jsval \<Rightarrow> jsstring" where
  "ToString Undefined = js ''undefined''"
| "ToString Null = js ''null''"
| "ToString (Bool b) = (if b then js ''true'' else js ''false'')"
| "ToString (Num n) = String_int n"
| "ToString (Str s) = s"

definition cashdraw :: "env \<Rightarrow> jsval \<Rightarrow> printer \<Rightarrow> result" where
  "cashdraw e pin p =
     Inr (buffer_write (CASH_DRAWER e (js ''CD_KICK_'' @ ToString (or_else pin (Num 2)))) p)"

definition color :: "env \<Rightarrow> jsval \<Rightarrow> printer \<Rightarrow> result" where
  "color e c p =
     Inr (buffer_write (COLOR e (ToString (if c = Num 0 \<or> c = Num 1 then c else Num 0))) p)"

text \<open>
  \<open>table\<close>: every cell in a column of \<open>this.width / data.length\<close> characters, the
  line in one \<open>iconv.encode\<close>.
\<close>

fun table_cells :: "int \<Rightarrow> double \<Rightarrow> jsstring list \<Rightarrow> jsstring \<Rightarrow> jsstring option" where
  "table_cells limit cellWidth [] lineTxt = Some lineTxt"
| "table_cells limit cellWidth (d # ds) lineTxt =
     (case concat_limited limit lineTxt d of
        None \<Rightarrow> None
      | Some l1 \<Rightarrow>
          (case pad_loop limit 0 (double_sub cellWidth (double_of_nat (length d))) l1 of
             None \<Rightarrow> None
           | Some l2 \<Rightarrow> table_cells limit cellWidth ds l2))"

definition table_op :: "env \<Rightarrow> jsstring list \<Rightarrow> jsstring option \<Rightarrow> printer \<Rightarrow> result" where
  "table_op e cells encoding p =
     (let cellWidth = double_div (double_of_int (this_width p)) (double_of_nat (length cells))
      in case table_cells (MAX_STRING_LENGTH e) cellWidth cells [] of
           None \<Rightarrow> Inl (StringTooLong, p)
         | Some lineTxt \<Rightarrow>
             (case concat_limited (MAX_STRING_LENGTH e) lineTxt (EOL e) of
                None \<Rightarrow> Inl (StringTooLong, p)
              | Some line \<Rightarrow>
                  (case iconv_encode e line (encoding_or encoding p) of
                     None \<Rightarrow> Inl (EncodingNotRecognized, p)
                   | Some b \<Rightarrow> Inr (buffer_write b p))))"

text \<open>
  The index \<open>substring\<close> makes of half an integer: truncated, and 0 when negative
  (the end of the string bounds it from above, as \<open>take\<close> and \<open>drop\<close> do).
\<close>

definition substring_index :: "rat \<Rightarrow> nat" where
  "substring_index x = nat \<lfloor>x\<rfloor>"

subsection \<open>lineTitle, controlText, threeColumnLayout and fourColumnLayout\<close>

text \<open>
  The loop of \<open>lineTitle\<close> (lines 860 to 868); \<open>half\<close> is \<open>otherWidth / 2\<close>.
\<close>

function lineTitle_loop :: "int \<Rightarrow> int \<Rightarrow> rat \<Rightarrow> rat \<Rightarrow> jsstring \<Rightarrow> jsstring \<Rightarrow> jsstring" where
  "lineTitle_loop i w half strWidth title str =
     (if i < w
      then (if half \<le> of_int i \<and> of_int i < half + strWidth
            then str @ title @ str
            else lineTitle_loop (i + 1) w half strWidth title (str @ [0x2D]))
      else str)"
  by pat_completeness auto
termination
  by (relation "measure (\<lambda>(i, w, half, strWidth, title, str). nat (w - i))") auto

declare lineTitle_loop.simps [simp del]

definition lineTitle :: "env \<Rightarrow> jsstring \<Rightarrow> int option \<Rightarrow> printer \<Rightarrow> result" where
  "lineTitle e title charLength0 p =
     (let charLength = (case charLength0 of None \<Rightarrow> 2 | Some c \<Rightarrow> c);
          strWidth = int (length title) * charLength;
          otherWidth = this_width p - strWidth;
          str = lineTitle_loop 0 (this_width p) (of_int otherWidth / 2) (of_int strWidth) title []
      in and_then (align e (Str (js ''CT'')) p)
           (\<lambda>p1. and_then (size_op e (Num 1) (Num 1) p1)
                    (\<lambda>p2. text_op e str None p2)))"

text \<open>\<open>s.substring(x, s.length)\<close> and \<open>s.substring(0, x)\<close>.\<close>

definition substring_from :: "rat \<Rightarrow> jsstring \<Rightarrow> jsstring" where
  "substring_from x s = drop (substring_index x) s"

definition substring_to :: "rat \<Rightarrow> jsstring \<Rightarrow> jsstring" where
  "substring_to x s = take (substring_index x) s"

definition controlText :: "env \<Rightarrow> jsstring \<Rightarrow> jsstring \<Rightarrow> int option \<Rightarrow> printer \<Rightarrow> result" where
  "controlText e leftStr rightStr wrapByte0 p =
     (let wrapByte = (case wrapByte0 of None \<Rightarrow> 32 | Some n \<Rightarrow> n);
          l_bytes = int (bytesLength leftStr);
          r_bytes = int (bytesLength rightStr)
      in if l_bytes > wrapByte then
           (let tempStr = substring_from (of_int wrapByte / 2) leftStr;
                leftText = substring_to (of_int wrapByte / 2) leftStr;
                tempBytes = int (bytesLength leftText);
                spaceLength = this_width p - tempBytes - r_bytes;
                str = space_loop 0 spaceLength leftText @ rightStr
            in and_then (text_op e str None p) (\<lambda>p1. text_op e tempStr None p1))
         else
           (let spaceLength = this_width p - l_bytes - r_bytes;
                str = space_loop 0 spaceLength leftStr @ rightStr
            in text_op e str None p))"

text \<open>
  The argument of \<open>threeColumnLayout\<close>; \<open>leftSpace\<close> is a number, 0 when absent.
  \<open>Math.round\<close> of half an integer \<open>k\<close> is \<open>(k + 1) div 2\<close>, \<open>Math.floor\<close> of it
  \<open>k div 2\<close>.
\<close>

record three_columns =
  leftTxt :: jsstring
  centerTxt :: jsstring
  rightTxt :: jsstring
  leftSpace :: int

definition threeColumnLayout :: "env \<Rightarrow> three_columns \<Rightarrow> int option \<Rightarrow> printer \<Rightarrow> result" where
  "threeColumnLayout e txt wrapByte0 p =
     (let wrapByte = (case wrapByte0 of None \<Rightarrow> 32 | Some n \<Rightarrow> n);
          l_bytes = int (bytesLength (leftTxt txt));
          c_bytes = int (bytesLength (centerTxt txt));
          r_bytes = int (bytesLength (rightTxt txt));
          w = this_width p;
          spaced = (leftSpace txt \<noteq> 0)
      in if l_bytes > wrapByte then
           (let tempStr = substring_from (of_int wrapByte / 2) (leftTxt txt);
                str = substring_to (of_int wrapByte / 2) (leftTxt txt);
                tempBytes = int (bytesLength (leftTxt txt))
            in and_then
                 (if spaced then text_op e (spaceText str (rightTxt txt) w) None p
                  else
                    (let spaceLength = (w - tempBytes - c_bytes - r_bytes + 1) div 2
                     in text_op e
                          (space_loop 0 spaceLength (space_loop 0 spaceLength str @ centerTxt txt)
                             @ rightTxt txt) None p))
                 (\<lambda>p1. text_op e tempStr None p1))
         else
           (let str = leftTxt txt
            in if spaced then
                 (let txtL = spaceText str (centerTxt txt) (leftSpace txt)
                  in text_op e (spaceText txtL (rightTxt txt) w) None p)
               else
                 (let spaceLength = (w - l_bytes - c_bytes - r_bytes) div 2
                  in text_op e
                       (space_loop 0 spaceLength (space_loop 0 spaceLength str @ centerTxt txt)
                          @ rightTxt txt) None p)))"

text \<open>
  The arguments of \<open>fourColumnLayout\<close>: the four header cells with the space after
  each, and the rows (the title of a row is empty when absent). A header of one to three
  cells makes the method read a property of \<open>undefined\<close>, before anything is written.
\<close>

record th =
  th_text :: jsstring
  th_space :: int

record tbody_row =
  row_title :: jsstring
  col1 :: jsstring
  col2 :: jsstring
  col3 :: jsstring
  col4 :: jsstring

definition fourColumn_row ::
  "env \<Rightarrow> int \<Rightarrow> int \<Rightarrow> int \<Rightarrow> int \<Rightarrow> tbody_row \<Rightarrow> printer \<Rightarrow> result" where
  "fourColumn_row e th1_length th2_length th3_length wrapByte itemx p =
     (let firstTxtBytes = int (bytesLength (col1 itemx));
          tempStr = (if firstTxtBytes > wrapByte
                     then substring_from (of_int wrapByte / 2) (col1 itemx) else []);
          txt1 = (if firstTxtBytes > wrapByte
                  then spaceText (substring_to (of_int wrapByte / 2) (col1 itemx)) (col2 itemx) th1_length
                  else spaceText (col1 itemx) (col2 itemx) th1_length)
      in and_then
           (if row_title itemx \<noteq> []
            then and_then (align e (Str (js ''LT'')) p) (\<lambda>p1. text_op e (row_title itemx) None p1)
            else Inr p)
           (\<lambda>p2. let txt2 = spaceText txt1 (col3 itemx) th2_length;
                      txt3 = spaceText txt2 (col4 itemx) th3_length
                  in and_then (text_op e txt3 None p2)
                       (\<lambda>p3. if tempStr \<noteq> [] then text_op e tempStr None p3 else Inr p3)))"

fun fourColumn_rows ::
  "env \<Rightarrow> int \<Rightarrow> int \<Rightarrow> int \<Rightarrow> int \<Rightarrow> tbody_row list \<Rightarrow> printer \<Rightarrow> result" where
  "fourColumn_rows e th1_length th2_length th3_length wrapByte [] p = Inr p"
| "fourColumn_rows e th1_length th2_length th3_length wrapByte (itemx # rest) p =
     and_then (fourColumn_row e th1_length th2_length th3_length wrapByte itemx p)
       (fourColumn_rows e th1_length th2_length th3_length wrapByte rest)"

definition fourColumnLayout ::
  "env \<Rightarrow> th list \<Rightarrow> tbody_row list \<Rightarrow> int option \<Rightarrow> printer \<Rightarrow> result" where
  "fourColumnLayout e thead tbody wrapByte0 p =
     (let wrapByte = (case wrapByte0 of None \<Rightarrow> 16 | Some n \<Rightarrow> n)
      in if thead = [] then Inr p
         else if length thead < 4 then Inl (JsTypeError, p)
         else
           (let th1_length = int (bytesLength (th_text (thead ! 0)))
                               + int (bytesLength (th_text (thead ! 1))) + th_space (thead ! 0);
                th2_length = th1_length + th_space (thead ! 1) + int (bytesLength (th_text (thead ! 1)));
                th3_length = th2_length + th_space (thead ! 2) + int (bytesLength (th_text (thead ! 2)));
                h_str = space_loop 0 (th_space (thead ! 2))
                          (space_loop 0 (th_space (thead ! 1))
                             (space_loop 0 (th_space (thead ! 0)) (th_text (thead ! 0))
                                @ th_text (thead ! 1))
                           @ th_text (thead ! 2))
                        @ th_text (thead ! 3)
            in and_then (text_op e h_str None p)
                 (fourColumn_rows e th1_length th2_length th3_length wrapByte tbody)))"

section \<open>Sequences of calls\<close>

text \<open>
  The methods that read and write the printer only, as values. \<open>tableCustom\<close>, which
  also assigns to the caller's objects, and \<open>qrimage\<close>, \<open>flush\<close> and \<open>close\<close> follow
  below.
\<close>

datatype operation =
    Model jsval
  | Encode jsstring
  | SetCharacterCodeTable jsval
  | MarginBottom jsval
  | MarginLeft jsval
  | MarginRight jsval
  | Print content
  | Println jsstring
  | NewLine
  | Text jsstring "jsstring option"
  | PureText jsstring "jsstring option"
  | DrawLine
  | Feed jsval
  | Control jsval
  | Align jsval
  | Font jsval
  | Style jsval
  | Spacing jsval
  | LineSpace jsval
  | Hardware jsval
  | Barcode jsstring jsval barcode_arg jsval jsval jsval
  | Qrcode jsstring jsval jsval jsval
  | ImageOp image_arg jsval
  | Raster image_arg jsval
  | Beep jsval jsval
  | Cut jsval jsval
  | SetReverseColors jsval
  | Raw raw_data
  | Size jsval jsval
  | Cashdraw jsval
  | Color jsval
  | Table "jsstring list" "jsstring option"
  | LineTitle jsstring "int option"
  | ControlText jsstring jsstring "int option"
  | ThreeColumnLayout three_columns "int option"
  | FourColumnLayout "th list" "tbody_row list" "int option"

fun apply_op :: "env \<Rightarrow> operation \<Rightarrow> printer \<Rightarrow> result" where
  "apply_op e (Model m) p = model m p"
| "apply_op e (Encode enc) p = encode enc p"
| "apply_op e (SetCharacterCodeTable n) p = setCharacterCodeTable e n p"
| "apply_op e (MarginBottom n) p = marginBottom e n p"
| "apply_op e (MarginLeft n) p = marginLeft e n p"
| "apply_op e (MarginRight n) p = marginRight e n p"
| "apply_op e (Print c) p = print c p"
| "apply_op e (Println s) p = println e s p"
| "apply_op e NewLine p = newLine e p"
| "apply_op e (Text s enc) p = text_op e s enc p"
| "apply_op e (PureText s enc) p = pureText e s enc p"
| "apply_op e DrawLine p = drawLine e p"
| "apply_op e (Feed n) p = feed e n p"
| "apply_op e (Control c) p = control e c p"
| "apply_op e (Align a) p = align e a p"
| "apply_op e (Font f) p = font e f p"
| "apply_op e (Style t) p = style e t p"
| "apply_op e (Spacing n) p = spacing e n p"
| "apply_op e (LineSpace n) p = lineSpace e n p"
| "apply_op e (Hardware h) p = hardware e h p"
| "apply_op e (Barcode code type a2 a3 a4 a5) p = barcode e code type a2 a3 a4 a5 p"
| "apply_op e (Qrcode code version level sz) p = qrcode e code version level sz p"
| "apply_op e (ImageOp img density) p = image_op e img density p"
| "apply_op e (Raster img mode) p = raster e img mode p"
| "apply_op e (Beep n t) p = beep e n t p"
| "apply_op e (Cut part n) p = cut e part n p"
| "apply_op e (SetReverseColors b) p = setReverseColors e b p"
| "apply_op e (Raw d) p = raw e d p"
| "apply_op e (Size w h) p = size_op e w h p"
| "apply_op e (Cashdraw pin) p = cashdraw e pin p"
| "apply_op e (Color c) p = color e c p"
| "apply_op e (Table cells enc) p = table_op e cells enc p"
| "apply_op e (LineTitle t charLength) p = lineTitle e t charLength p"
| "apply_op e (ControlText l r wrapByte) p = controlText e l r wrapByte p"
| "apply_op e (ThreeColumnLayout txt wrapByte) p = threeColumnLayout e txt wrapByte p"
| "apply_op e (FourColumnLayout thead tbody wrapByte) p = fourColumnLayout e thead tbody wrapByte p"

text \<open>A method of the printer, in a session.\<close>

definition in_session :: "session \<Rightarrow> result \<Rightarrow> outcome" where
  "in_session s r =
     (case r of
        Inl (err, p) \<Rightarrow> Inl (err, s\<lparr>the_printer := p\<rparr>)
      | Inr p \<Rightarrow> Inr (s\<lparr>the_printer := p\<rparr>))"

subsection \<open>qrimage\<close>

text \<open>
  An element of the array in \<^verbatim>\<open>['image', options.type].join('/')\<close>: \<open>undefined\<close> and
  \<open>null\<close> are joined as the empty string.
\<close>

fun join_item :: "jsval \<Rightarrow> jsstring" where
  "join_item Undefined = []"
| "join_item Null = []"
| "join_item v = ToString v"

text \<open>
  \<open>qrimage\<close> (lines 682 to 697) makes the image file, hands it to \<open>getPixels\<close> with a
  callback, and returns: it writes nothing itself. \<open>options\<close> is \<open>None\<close> when the
  argument is absent, \<open>null\<close> or the callback.
\<close>

definition qrimage :: "env \<Rightarrow> jsstring \<Rightarrow> qr_options option \<Rightarrow> session \<Rightarrow> outcome" where
  "qrimage e content options0 s =
     (let options = (case options0 of
                       None \<Rightarrow> \<lparr>qr_type = Str (js ''png''), qr_mode = Str (js ''dhdw''), qr_others = []\<rparr>
                     | Some opts \<Rightarrow> opts)
      in case imageSync e content options of
           None \<Rightarrow> Inl (QrImageError, s)
         | Some buffer \<Rightarrow>
             (let type = js ''image/'' @ join_item (qr_type options)
              in Inr (s\<lparr>pending := pending s
                         @ [\<lparr>cb_pixels = getPixels e buffer type, cb_mode = qr_mode options\<rparr>]\<rparr>)))"

text \<open>
  The callback that \<open>qrimage\<close> gave to \<open>getPixels\<close> (lines 691 to 695), run for the
  pending call number \<open>n\<close>: with an error it leaves the printer alone, with pixels it
  calls \<open>raster\<close>. What the caller's own callback does then is a matter of the calls
  that follow.
\<close>

definition getPixels_callback :: "env \<Rightarrow> nat \<Rightarrow> session \<Rightarrow> outcome" where
  "getPixels_callback e n s =
     (if length (pending s) \<le> n then Inr s
      else
        (let cb = pending s ! n;
             s1 = s\<lparr>pending := take n (pending s) @ drop (Suc n) (pending s)\<rparr>
         in case cb_pixels cb of
              None \<Rightarrow> Inr s1
            | Some i \<Rightarrow> in_session s1 (raster e (Image i) (cb_mode cb) (the_printer s1))))"

subsection \<open>What a program does with a printer\<close>

text \<open>
  The steps of a program: a call of a method, and the run of a pending callback of
  \<open>getPixels\<close>, which the event loop starts when no call is under way.
\<close>

datatype event =
    Call operation
  | TableCustom "nat list" "jsstring option"
  | Qrimage jsstring "qr_options option"
  | Flush
  | Close
  | Callback nat

fun step :: "env \<Rightarrow> event \<Rightarrow> session \<Rightarrow> outcome" where
  "step e (Call x) s = in_session s (apply_op e x (the_printer s))"
| "step e (TableCustom data encoding) s = tableCustom e data encoding s"
| "step e (Qrimage content options) s = qrimage e content options s"
| "step e Flush s = in_session s (flush (the_printer s))"
| "step e Close s = in_session s (close (the_printer s))"
| "step e (Callback n) s = getPixels_callback e n s"

text \<open>A sequence of steps: the first step that throws ends it.\<close>

fun run :: "env \<Rightarrow> event list \<Rightarrow> session \<Rightarrow> outcome" where
  "run e [] s = Inr s"
| "run e (x # xs) s =
     (case step e x s of
        Inl err \<Rightarrow> Inl err
      | Inr s1 \<Rightarrow> run e xs s1)"

text \<open>The state as a call or a sequence left it, whether it returned or threw.\<close>

definition final :: "(error \<times> 'a) + 'a \<Rightarrow> 'a" where
  "final r = (case r of Inl (err, s) \<Rightarrow> s | Inr s \<Rightarrow> s)"

text \<open>
  All the bytes of a printer in the order in which they were appended: those the
  adapter was handed, write after write, and those still in the buffer.
\<close>

definition stream :: "printer \<Rightarrow> bytes" where
  "stream p = concat (adapter_written p) @ this_buffer p"

text \<open>
  The bytes each step of a sequence appended: what the stream holds after the step
  beyond its length before it. The step that throws is the last one.
\<close>

fun appended :: "env \<Rightarrow> event list \<Rightarrow> session \<Rightarrow> bytes list" where
  "appended e [] s = []"
| "appended e (x # xs) s =
     (let bs = drop (length (stream (the_printer s))) (stream (the_printer (final (step e x s))))
      in case step e x s of
           Inl err \<Rightarrow> [bs]
         | Inr s1 \<Rightarrow> bs # appended e xs s1)"

text \<open>A step that is not a flush: \<open>close\<close> flushes, too.\<close>

fun buffering :: "event \<Rightarrow> bool" where
  "buffering Flush = False"
| "buffering Close = False"
| "buffering x = True"

section \<open>An instance of the environment\<close>

text \<open>
  A stand-in for the transcoder: it knows \<open>utf8\<close>, and \<open>ascii\<close>, which writes \<open>?\<close> for
  every character above \<open>0x7F\<close>.
\<close>

definition ascii_encode :: "jsstring \<Rightarrow> bytes" where
  "ascii_encode s = map (\<lambda>c. if c < 0x80 then of_nat (unat c) else 0x3F) s"

definition sample_iconv :: "jsstring \<Rightarrow> jsstring \<Rightarrow> bytes option" where
  "sample_iconv s enc =
     (if enc = js ''utf8'' then Some (utf8_encode s)
      else if enc = js ''ascii'' then Some (ascii_encode s)
      else None)"

text \<open>Upper and lower case of the ASCII letters; other characters stay.\<close>

definition ascii_upper :: "jsstring \<Rightarrow> jsstring" where
  "ascii_upper s = map (\<lambda>c. if 0x61 \<le> c \<and> c \<le> 0x7A then c - 0x20 else c) s"

definition ascii_lower :: "jsstring \<Rightarrow> jsstring" where
  "ascii_lower s = map (\<lambda>c. if 0x41 \<le> c \<and> c \<le> 0x5A then c + 0x20 else c) s"

text \<open>
  A table that writes its key: enough to tell the commands apart in an example.
\<close>

definition key_bytes :: "jsstring \<Rightarrow> bytes" where
  "key_bytes k = utf8_encode (js ''<'' @ k @ js ''>'')"

text \<open>
  An image of one dot, and stand-ins for \<open>qr-image\<close> and \<open>get-pixels\<close>: every content
  makes the same file, which decodes to that image when the type is \<open>image/png\<close>.
\<close>

definition sample_image :: escpos_image where
  "sample_image = \<lparr>toBitmap = (\<lambda>density. [[0x80]]), raster_width = 1, raster_height = 1,
                    raster_data = [0x80]\<rparr>"

definition sample_env :: env where
  "sample_env = \<lparr>
     EOL = js [CHR 0x0A],
     ESC = [0x1B],
     TAB = [0x74],
     BEEP = [0x1B, 0x42],
     MARGINS = key_bytes,
     FEED_CONTROL_SEQUENCES = key_bytes,
     TEXT_FORMAT = key_bytes,
     TXT_CUSTOM_SIZE = (\<lambda>w h. [0x1D, 0x21]),
     CHARACTER_SPACING = key_bytes,
     LINE_SPACING = key_bytes,
     HARDWARE = key_bytes,
     PAPER = key_bytes,
     CASH_DRAWER = key_bytes,
     COLOR = key_bytes,
     BARCODE_FORMAT = key_bytes,
     BARCODE_WIDTH = (\<lambda>v. [0x1D, 0x77]),
     BARCODE_HEIGHT = (\<lambda>v. [0x1D, 0x68]),
     CODE2D_FORMAT = key_bytes,
     QR_LEVEL_L = js ''L'',
     BITMAP_FORMAT = key_bytes,
     GSV0_FORMAT = key_bytes,
     QSPRINTER_BARCODE_MODE_ON = [0x1D, 0x45, 0x43, 0x01],
     QSPRINTER_BARCODE_MODE_OFF = [0x1D, 0x45, 0x43, 0x00],
     QSPRINTER_BARCODE_HEIGHT_DEFAULT = [0x1D, 0x68, 0xA2],
     QSPRINTER_PIXEL_SIZE_CMD = [0x1B, 0x23, 0x23, 0x51, 0x50, 0x49, 0x58],
     QSPRINTER_PIXEL_SIZE_MIN = 1,
     QSPRINTER_PIXEL_SIZE_MAX = 24,
     QSPRINTER_PIXEL_SIZE_DEFAULT = 12,
     QSPRINTER_VERSION_CMD = [0x1D, 0x28, 0x6B, 0x03, 0x00, 0x31, 0x43],
     QSPRINTER_VERSION_MIN = 1,
     QSPRINTER_VERSION_MAX = 16,
     QSPRINTER_VERSION_DEFAULT = 3,
     QSPRINTER_LEVEL_CMD = [0x1D, 0x28, 0x6B, 0x03, 0x00, 0x31, 0x45],
     QSPRINTER_LEVEL_OPTIONS = key_bytes,
     QSPRINTER_LEN_OFFSET = 3,
     QSPRINTER_SAVEBUF_CMD_P1 = [0x1D, 0x28, 0x6B],
     QSPRINTER_SAVEBUF_CMD_P2 = [0x31, 0x50, 0x30],
     QSPRINTER_PRINTBUF_CMD_P1 = [0x1D, 0x28, 0x6B],
     QSPRINTER_PRINTBUF_CMD_P2 = [0x31, 0x51, 0x30],
     iconv_encode = sample_iconv,
     toUpperCase = ascii_upper,
     toLowerCase = ascii_lower,
     StringToNumber = (\<lambda>s. None),
     MAX_STRING_LENGTH = 536870888,
     STACK_DEPTH = 10000,
     imageSync = (\<lambda>content options. Some [0x89, 0x50, 0x4E, 0x47]),
     getPixels = (\<lambda>buffer type. if type = js ''image/png'' then Some sample_image else None)
   \<rparr>"

text \<open>
  \<open>new Printer(adapter, { encoding: 'ascii' })\<close> with an adapter that has written
  nothing, and the same printer after \<open>model('qsprinter')\<close>.
\<close>

definition new_printer :: printer where
  "new_printer = \<lparr>
     this_buffer = [],
     this_encoding = js ''ascii'',
     this_width = 48,
     this_model = Null,
     this_options_width = None,
     adapter_written = [],
     adapter_closed = False
   \<rparr>"

definition qs_printer :: printer where
  "qs_printer = new_printer\<lparr>this_model := Str (js ''qsprinter'')\<rparr>"

text \<open>
  A cell of six characters that is four columns wide, and a program that has the new
  printer, this cell as its only object, and no callback pending.
\<close>

definition wide_cell :: cell where
  "wide_cell = \<lparr>cell_text = [0xE9, 0x61, 0xE9, 0x62, 0xE9, 0x63], cell_originalText = None,
                 cell_width = None, cell_cols = Some 4, cell_align = None\<rparr>"

definition new_session :: session where
  "new_session = \<lparr>the_printer = new_printer, cell_objects = [wide_cell], pending = []\<rparr>"

text \<open>The bytes that \<open>raster\<close> writes for the image of the example.\<close>

definition sample_raster :: bytes where
  "sample_raster = [0x3C, 0x47, 0x53, 0x56, 0x30, 0x5F, 0x44, 0x57, 0x44, 0x48, 0x3E,
                    0x01, 0x00, 0x01, 0x00, 0x80]"

text \<open>
  A short program: three calls that write, a table of the one cell in \<open>utf8\<close>, a
  \<open>qrimage\<close>, and the callback of its \<open>getPixels\<close>. And the state of a program after
  \<open>qrimage\<close>, before the callback.
\<close>

definition short_events :: "event list" where
  "short_events =
     [Call (Text (js ''A'') None), Call (Feed Undefined), Call (Raw (RawString (js ''1D 77:06''))),
      TableCustom [0] (Some (js ''utf8'')), Qrimage (js ''x'') None, Callback 0]"

definition pending_session :: session where
  "pending_session =
     new_session\<lparr>pending := [\<lparr>cb_pixels = Some sample_image, cb_mode = Str (js ''dhdw'')\<rparr>]\<rparr>"

section \<open>Definitions used to state the properties\<close>

text \<open>Decimal digits \<open>0\<close> to \<open>9\<close> as code units, and their numeric value.\<close>

definition is_digit :: "char16 \<Rightarrow> bool" where
  "is_digit c = (0x30 \<le> c \<and> c \<le> 0x39)"

definition digit_value :: "char16 \<Rightarrow> nat" where
  "digit_value c = unat c - 48"

text \<open>
  The check digit as the specification words it: reverse the digits, weight position
  \<open>i\<close> of the reversed string by 3 when \<open>i + 1\<close> is odd and by 1 otherwise, sum, and
  return \<open>(10 - (sum mod 10)) mod 10\<close> as one ASCII digit.
\<close>

definition checkDigit_spec :: "jsstring \<Rightarrow> jsstring" where
  "checkDigit_spec digits =
     (let r = rev digits;
          s = (\<Sum>i\<leftarrow>[0..<length r]. digit_value (r ! i) * (if odd (i + 1) then 3 else 1))
      in [digit_char ((10 - s mod 10) mod 10)])"

text \<open>
  The EAN checksum of a complete code (payload and check digit): counting from the
  right, the check digit has weight 1, the last payload digit weight 3, and the weights
  alternate from there. A code is valid when the sum is a multiple of 10.
\<close>

definition ean_sum :: "jsstring \<Rightarrow> nat" where
  "ean_sum code =
     (let r = rev code
      in (\<Sum>i\<leftarrow>[0..<length r]. digit_value (r ! i) * (if odd i then 3 else 1)))"

text \<open>
  The byte width as the specification words it: the sum over the characters of 1 when
  the code is at most \<open>0x00FF\<close> and of 2 otherwise.
\<close>

definition char_width :: "char16 \<Rightarrow> nat" where
  "char_width c = (if c \<le> 0xFF then 1 else 2)"

definition byteWidth_spec :: "jsstring \<Rightarrow> nat" where
  "byteWidth_spec s = (\<Sum>c\<leftarrow>s. char_width c)"

text \<open>
  A printer \<open>q\<close> extends a printer \<open>p\<close> when the buffer of \<open>q\<close> starts with the whole
  buffer of \<open>p\<close> and the adapter has been asked to write nothing more.
\<close>

definition extends :: "printer \<Rightarrow> printer \<Rightarrow> bool" where
  "extends p q =
     (take (length (this_buffer p)) (this_buffer q) = this_buffer p
      \<and> adapter_written q = adapter_written p)"

text \<open>
  A step is regular from \<open>p\<close> when it leaves a printer that extends \<open>p\<close>, and, if it
  throws, the error is not one of a \<open>throw\<close> statement of the source.
\<close>

definition regular :: "printer \<Rightarrow> result \<Rightarrow> bool" where
  "regular p r =
     (case r of
        Inl (err, q) \<Rightarrow> extends p q \<and> \<not> explicit_throw err
      | Inr q \<Rightarrow> extends p q)"

text \<open>
  A call is safe from \<open>p\<close> when it leaves a printer that extends \<open>p\<close>, and leaves \<open>p\<close>
  itself if it throws with a \<open>throw\<close> statement of the source.
\<close>

definition safe :: "printer \<Rightarrow> result \<Rightarrow> bool" where
  "safe p r =
     (case r of
        Inl (err, q) \<Rightarrow> if explicit_throw err then q = p else extends p q
      | Inr q \<Rightarrow> extends p q)"

text \<open>
  A printer \<open>q\<close> follows a printer \<open>p\<close> when the stream of \<open>q\<close> starts with the whole
  stream of \<open>p\<close>, and the writes of the adapter with those it had been asked for.
\<close>

definition follows :: "printer \<Rightarrow> printer \<Rightarrow> bool" where
  "follows p q =
     (take (length (stream p)) (stream q) = stream p
      \<and> take (length (adapter_written p)) (adapter_written q) = adapter_written p)"

section \<open>Properties of utils.js\<close>

subsection \<open>The loops in closed form\<close>

lemma bytesLength_loop_eq:
  "bytesLength_loop str i n = n + sum_list (map char_width (drop i str))"
proof (induction str i n rule: bytesLength_loop.induct)
  case (1 str i n)
  show ?case
  proof (cases "i < length str")
    case True
    then have d: "drop i str = str ! i # drop (i + 1) str"
      by (simp add: Cons_nth_drop_Suc)
    show ?thesis
      using True 1 d
      by (subst bytesLength_loop.simps) (simp add: single_byte_char_def char_width_def [of "str ! i"])
  next
    case False
    then show ?thesis by (subst bytesLength_loop.simps) simp
  qed
qed

lemma space_loop_eq:
  "space_loop i space str = str @ replicate (nat (space - i)) 0x20"
proof (induction i space str rule: space_loop.induct)
  case (1 i space str)
  show ?case
  proof (cases "i < space")
    case True
    then have "nat (space - i) = Suc (nat (space - (i + 1)))" by simp
    then show ?thesis using True 1
      by (subst space_loop.simps) (simp add: replicate_app_Cons_same)
  next
    case False
    then show ?thesis by (subst space_loop.simps) simp
  qed
qed

lemma parity_loop_digits:
  assumes "\<forall>c\<in>set r. is_digit c"
  shows "parity_loop r c (Some p) =
         Some (p + (\<Sum>i\<leftarrow>[c..<length r]. digit_value (r ! i) * (if odd (i + 1) then 3 else 1)))"
  using assms
proof (induction r c "Some p :: jsnum" arbitrary: p rule: parity_loop.induct)
  case (1 r c)
  show ?case
  proof (cases "c < length r")
    case True
    then have dg: "is_digit (r ! c)" using 1(2) by simp
    have up: "[c..<length r] = c # [c + 1..<length r]"
      using True by (simp add: upt_conv_Cons)
    have step: "num_add (Some p) (num_mul (parseInt_char (r ! c)) (Some (3 ^ ((c + 1) mod 2))))
                = Some (p + digit_value (r ! c) * (if odd (c + 1) then 3 else 1))"
      using dg by (cases "even c") (simp_all add: num_add_def num_mul_def parseInt_char_def is_digit_def digit_value_def mod_2_eq_odd)
    have "parity_loop r c (Some p) =
          parity_loop r (c + 1) (Some (p + digit_value (r ! c) * (if odd (c + 1) then 3 else 1)))"
      by (subst parity_loop.simps) (simp only: True if_True step)
    also have "\<dots> = Some (p + digit_value (r ! c) * (if odd (c + 1) then 3 else 1) +
          (\<Sum>i\<leftarrow>[c + 1..<length r]. digit_value (r ! i) * (if odd (i + 1) then 3 else 1)))"
      by (rule 1(1) [OF True step 1(2)])
    finally show ?thesis
      by (simp only: up list.map sum_list.Cons add.assoc)
  next
    case False
    then show ?thesis by (subst parity_loop.simps) simp
  qed
qed

lemma unat_digit_char: "k < 10 \<Longrightarrow> unat (digit_char k) = 48 + k"
  unfolding digit_char_def by (subst unat_of_nat) simp

lemma digit_char_is_digit: "k < 10 \<Longrightarrow> is_digit (digit_char k)"
  by (simp add: is_digit_def word_le_nat_alt unat_digit_char)

lemma digit_value_digit_char: "k < 10 \<Longrightarrow> digit_value (digit_char k) = k"
  by (simp add: digit_value_def unat_digit_char)

lemma getParityBit_digits:
  assumes "\<forall>c\<in>set d. is_digit c"
  shows "getParityBit d = checkDigit_spec d"
proof -
  have "\<forall>c\<in>set (rev d). is_digit c" using assms by simp
  from parity_loop_digits [OF this, of 0 0]
  show ?thesis
    by (simp add: getParityBit_def checkDigit_spec_def Let_def String_nat.simps)
qed

lemma ean_sum_snoc:
  "ean_sum (d @ [c]) =
   digit_value c + (\<Sum>i\<leftarrow>[0..<length d]. digit_value (rev d ! i) * (if odd (i + 1) then 3 else 1))"
proof -
  have "[0..<Suc (length d)] = 0 # map Suc [0..<length d]"
    by (simp only: map_Suc_upt upt_conv_Cons [OF zero_less_Suc])
  then show ?thesis
    by (simp add: ean_sum_def Let_def comp_def)
qed

lemma check_digit_mod:
  "((10 - s mod 10) mod 10 + s) mod 10 = (0::nat)"
proof -
  have "(10 - s mod 10) mod 10 + s mod 10 = 10 \<or> (10 - s mod 10) mod 10 + s mod 10 = 0"
    by (cases "s mod 10 = 0") auto
  then have "((10 - s mod 10) mod 10 + s mod 10) mod 10 = 0" by auto
  then show ?thesis by (metis mod_add_right_eq)
qed

lemma bytesLength_spec: "bytesLength s = byteWidth_spec s"
  by (simp add: bytesLength_def byteWidth_spec_def bytesLength_loop_eq)

lemma bytesLength_append: "bytesLength (a @ b) = bytesLength a + bytesLength b"
  by (simp add: bytesLength_spec byteWidth_spec_def)

lemma bytesLength_spaces: "bytesLength (replicate n 0x20) = n"
  by (induction n) (simp_all add: bytesLength_spec byteWidth_spec_def char_width_def)

subsection \<open>Check digit\<close>

text \<open>
  C4. For every string \<open>d\<close> of 11 or 12 decimal digits, \<open>getParityBit d\<close> is the
  check digit as the specification computes it (reverse, weight position \<open>i\<close> by 3 when
  \<open>i + 1\<close> is odd and by 1 otherwise, sum, \<open>(10 - (sum mod 10)) mod 10\<close> as one ASCII
  digit), and \<open>d\<close> followed by it is a sequence of 12 or 13 digits whose EAN checksum
  (weights alternating 3 and 1 leftwards from the last digit of \<open>d\<close>, the check digit
  itself counted once) is congruent to 0 modulo 10.
\<close>

theorem getParityBit_ean_valid:
  assumes "\<forall>c\<in>set d. is_digit c" and "length d = 11 \<or> length d = 12"
  shows "getParityBit d = checkDigit_spec d
       \<and> (length (d @ getParityBit d) = 12 \<or> length (d @ getParityBit d) = 13)
       \<and> (\<forall>c\<in>set (d @ getParityBit d). is_digit c)
       \<and> ean_sum (d @ getParityBit d) mod 10 = 0"
proof -
  define s where "s = (\<Sum>i\<leftarrow>[0..<length d]. digit_value (rev d ! i) * (if odd (i + 1) then 3 else 1))"
  define k where "k = (10 - s mod 10) mod 10"
  have k: "k < 10" by (simp add: k_def)
  have eq: "getParityBit d = checkDigit_spec d"
    by (rule getParityBit_digits [OF assms(1)])
  have cd: "checkDigit_spec d = [digit_char k]"
    by (simp add: checkDigit_spec_def Let_def s_def k_def)
  have len: "length (d @ getParityBit d) = 12 \<or> length (d @ getParityBit d) = 13"
    using assms(2) by (auto simp: eq cd)
  have dig: "\<forall>c\<in>set (d @ getParityBit d). is_digit c"
    using assms(1) digit_char_is_digit [OF k] by (simp add: eq cd)
  have "ean_sum (d @ getParityBit d) = k + s"
    by (simp add: eq cd ean_sum_snoc digit_value_digit_char [OF k] s_def)
  moreover have "(k + s) mod 10 = 0"
    unfolding k_def by (rule check_digit_mod)
  ultimately show ?thesis using eq len dig by simp
qed

theorem getParityBit_ean_valid_witness:
  "list_all is_digit (js ''123456789012'')
   \<and> getParityBit (js ''123456789012'') = js ''8''
   \<and> ean_sum (js ''1234567890128'') mod 10 = 0"
proof -
  have d: "\<forall>c\<in>set (js ''123456789012''). is_digit c"
    by (simp add: js_def is_digit_def)
  have l: "length (js ''123456789012'') = 11 \<or> length (js ''123456789012'') = 12"
    by (simp add: js_def)
  have g: "getParityBit (js ''123456789012'') = js ''8''" by code_simp
  have a: "js ''123456789012'' @ js ''8'' = js ''1234567890128''" by (simp add: js_def)
  show ?thesis using getParityBit_ean_valid [OF d l] d by (simp add: g a list_all_iff)
qed

subsection \<open>Byte width\<close>

text \<open>
  C8. For every string \<open>s\<close>, \<open>bytesLength s\<close> is the sum over the characters (UTF-16
  code units) of \<open>s\<close> of 1 when the code is at most \<open>0x00FF\<close> and 2 otherwise; for a
  pure-ASCII string of length \<open>n\<close> it is \<open>n\<close>, and for a string of \<open>n\<close> characters
  all above \<open>0x00FF\<close> it is \<open>2n\<close>.
\<close>

theorem bytesLength_sum:
  "bytesLength s = byteWidth_spec s
   \<and> ((\<forall>c\<in>set s. c \<le> 0x7F) \<longrightarrow> bytesLength s = length s)
   \<and> ((\<forall>c\<in>set s. 0xFF < c) \<longrightarrow> bytesLength s = 2 * length s)"
proof (intro conjI impI)
  show "bytesLength s = byteWidth_spec s" by (rule bytesLength_spec)
next
  assume "\<forall>c\<in>set s. c \<le> 0x7F"
  then have "\<forall>c\<in>set s. char_width c = 1"
    by (auto simp: char_width_def intro: order_trans [where y = "0x7F :: char16"])
  then have "byteWidth_spec s = length s"
    unfolding byteWidth_spec_def by (induction s) simp_all
  then show "bytesLength s = length s" by (simp add: bytesLength_spec)
next
  assume "\<forall>c\<in>set s. 0xFF < c"
  then have "\<forall>c\<in>set s. char_width c = 2"
    by (auto simp: char_width_def)
  then have "byteWidth_spec s = 2 * length s"
    unfolding byteWidth_spec_def by (induction s) simp_all
  then show "bytesLength s = 2 * length s" by (simp add: bytesLength_spec)
qed

theorem bytesLength_sum_witness:
  "list_all (\<lambda>c. c \<le> 0x7F) (js ''abc'') \<and> bytesLength (js ''abc'') = 3
   \<and> list_all (\<lambda>c. 0xFF < c) [0x4E2D, 0x6587 :: char16] \<and> bytesLength [0x4E2D, 0x6587] = 4
   \<and> bytesLength [0x41, 0x4E2D, 0xE9] = 4"
proof -
  have a: "\<forall>c\<in>set (js ''abc''). c \<le> 0x7F" by (simp add: js_def)
  have b: "\<forall>c\<in>set [0x4E2D, 0x6587 :: char16]. 0xFF < c" by simp
  have l: "length (js ''abc'') = 3" by (simp add: js_def)
  have c: "byteWidth_spec [0x41, 0x4E2D, 0xE9] = 4"
    by (simp add: byteWidth_spec_def char_width_def)
  show ?thesis
    using bytesLength_sum [of "js ''abc''"] bytesLength_sum [of "[0x4E2D, 0x6587]"]
      bytesLength_sum [of "[0x41, 0x4E2D, 0xE9]"] a b l c
    by (simp add: list_all_iff)
qed

subsection \<open>Two-column padding\<close>

text \<open>
  C7. For all strings \<open>left\<close>, \<open>right\<close> and every integer \<open>w\<close>: when \<open>w\<close> is at least
  \<open>bytesLength left + bytesLength right\<close>, \<open>spaceText left right w\<close> is \<open>left\<close>, then
  exactly \<open>w - bytesLength left - bytesLength right\<close> spaces, then \<open>right\<close>, and its byte
  width is \<open>w\<close>; otherwise it is \<open>left\<close> directly followed by \<open>right\<close>.
\<close>

theorem spaceText_pads:
  "(int (bytesLength left) + int (bytesLength right) \<le> w \<longrightarrow>
      spaceText left right w =
        left @ replicate (nat (w - int (bytesLength left) - int (bytesLength right))) 0x20 @ right
      \<and> int (bytesLength (spaceText left right w)) = w)
   \<and> (w < int (bytesLength left) + int (bytesLength right) \<longrightarrow>
      spaceText left right w = left @ right)"
  by (auto simp: spaceText_def Let_def space_loop_eq bytesLength_append bytesLength_spaces)

theorem spaceText_pads_witness:
  "int (bytesLength (js ''ab'')) + int (bytesLength [0x4E2D]) \<le> 7
   \<and> spaceText (js ''ab'') [0x4E2D] 7 = js ''ab   '' @ [0x4E2D]
   \<and> 3 < int (bytesLength (js ''ab'')) + int (bytesLength [0x4E2D])
   \<and> spaceText (js ''ab'') [0x4E2D] 3 = js ''ab'' @ [0x4E2D]"
proof -
  have l: "bytesLength (js ''ab'') = 2" by code_simp
  have r: "bytesLength [0x4E2D] = 2" by code_simp
  have s: "replicate 3 (0x20 :: char16) = js ''   ''" by code_simp
  show ?thesis
    using spaceText_pads [of "js ''ab''" "[0x4E2D]" 7] spaceText_pads [of "js ''ab''" "[0x4E2D]" 3]
    by (simp add: l r s) (simp add: js_def)
qed

section \<open>Properties of the printer\<close>

subsection \<open>Every step extends the buffer\<close>

lemma this_buffer_write [simp]: "this_buffer (buffer_write bs p) = this_buffer p @ bs"
  by (simp add: buffer_write_def)

lemma adapter_written_write [simp]: "adapter_written (buffer_write bs p) = adapter_written p"
  by (simp add: buffer_write_def)

lemma this_model_write [simp]: "this_model (buffer_write bs p) = this_model p"
  by (simp add: buffer_write_def)

lemma this_encoding_write [simp]: "this_encoding (buffer_write bs p) = this_encoding p"
  by (simp add: buffer_write_def)

lemma this_width_write [simp]: "this_width (buffer_write bs p) = this_width p"
  by (simp add: buffer_write_def)

lemma extends_iff:
  "extends p q \<longleftrightarrow> (\<exists>bs. this_buffer q = this_buffer p @ bs) \<and> adapter_written q = adapter_written p"
  unfolding extends_def
  by (metis append_eq_conv_conj append_take_drop_id)

lemma extends_refl [simp, intro!]: "extends p p"
  by (simp add: extends_def)

lemma extends_trans: "extends p q \<Longrightarrow> extends q r \<Longrightarrow> extends p r"
  by (auto simp: extends_iff)

lemma extends_write [intro!]: "extends p q \<Longrightarrow> extends p (buffer_write bs q)"
  by (auto simp: extends_iff)

lemma extends_write_string [intro!]: "extends p q \<Longrightarrow> extends p (write_string s q)"
  by (simp add: write_string_def extends_write)

lemma extends_mode_off [intro!]: "extends p q \<Longrightarrow> extends p (mode_off e q)"
  by (auto simp: mode_off_def)

lemma extends_this_width [intro!]: "extends p q \<Longrightarrow> extends p (q\<lparr>this_width := w\<rparr>)"
  by (simp add: extends_def)

lemma regular_InrI [intro!]: "extends p q \<Longrightarrow> regular p (Inr q)"
  by (simp add: regular_def)

lemma regular_InlI: "extends p q \<Longrightarrow> \<not> explicit_throw err \<Longrightarrow> regular p (Inl (err, q))"
  by (simp add: regular_def)

lemma regular_and_then [intro!]:
  assumes "regular p r" and "\<And>q. extends p q \<Longrightarrow> regular p (f q)"
  shows "regular p (and_then r f)"
proof (cases r)
  case (Inl a)
  then show ?thesis using assms(1) by (simp add: and_then_def)
next
  case (Inr q)
  then have "extends p q" using assms(1) by (simp add: regular_def)
  then show ?thesis using assms(2) Inr by (simp add: and_then_def)
qed

lemma regular_writeUInt8 [intro!]: "extends p q \<Longrightarrow> regular p (writeUInt8 e v q)"
  by (auto simp: writeUInt8_def regular_def split: option.splits)

lemma regular_writeUInt16LE [intro!]: "extends p q \<Longrightarrow> regular p (writeUInt16LE n q)"
  by (auto simp: writeUInt16LE_def regular_def)

lemma call_toUpperCase_error: "call_toUpperCase e v = Inl err \<Longrightarrow> err = JsTypeError"
  by (cases v) auto

lemma regular_safe: "regular p r \<Longrightarrow> safe p r"
  by (auto simp: regular_def safe_def split: sum.splits)

lemma safe_throw [simp]: "safe p (Inl (err, p))"
  by (simp add: safe_def)

lemma regular_print [intro!]: "extends p q \<Longrightarrow> regular p (print c q)"
  by (cases c) auto

lemma regular_simple:
  assumes "extends p q"
  shows "regular p (model m q)" "regular p (encode enc q)"
    "regular p (setCharacterCodeTable e n q)" "regular p (marginBottom e n q)"
    "regular p (marginLeft e n q)" "regular p (marginRight e n q)"
    "regular p (println e s q)" "regular p (newLine e q)"
    "regular p (spacing e n q)" "regular p (lineSpace e n q)"
    "regular p (beep e n t q)" "regular p (setReverseColors e b q)"
  using assms
  by (auto simp: model_def encode_def setCharacterCodeTable_def marginBottom_def marginLeft_def
      marginRight_def println_def newLine_def spacing_def lineSpace_def beep_def
      setReverseColors_def extends_def)

lemma regular_text:
  assumes "extends p q"
  shows "regular p (text_op e s enc q)" "regular p (pureText e s enc q)"
  using assms
  by (auto simp: text_op_def pureText_def intro: regular_InlI split: option.splits)

lemma extends_drawLine_loop: "extends p q \<Longrightarrow> extends p (drawLine_loop i q)"
proof (induction i q rule: drawLine_loop.induct)
  case (1 i q)
  then show ?case
    by (subst drawLine_loop.simps) auto
qed

lemma regular_drawLine: "extends p q \<Longrightarrow> regular p (drawLine e q)"
  by (auto simp: drawLine_def newLine_def intro: extends_drawLine_loop)

lemma regular_feed [intro!]: "extends p q \<Longrightarrow> regular p (feed e n q)"
  by (auto simp: feed_def intro: regular_InlI split: jsval.splits)

lemma regular_keyed:
  assumes "extends p q"
  shows "regular p (control e v q)" "regular p (align e v q)" "regular p (hardware e v q)"
    "regular p (font e v q)" "regular p (style e v q)"
  using assms
  by (auto simp: control_def align_def hardware_def font_def style_def Let_def
      dest!: call_toUpperCase_error intro: regular_InlI split: sum.splits prod.splits)

lemma regular_cut: "extends p q \<Longrightarrow> regular p (cut e part n q)"
  by (auto simp: cut_def)

lemma regular_raw: "extends p q \<Longrightarrow> regular p (raw e d q)"
  by (cases d) auto

lemma barcode_type_key_error: "barcode_type_key e v = Inl err \<Longrightarrow> err = JsTypeError"
  by (cases v) auto

lemma regular_barcode_setup:
  "extends p q \<Longrightarrow> regular p (barcode_setup e type w h position fnt q)"
  unfolding barcode_setup_def Let_def
  by (auto dest!: call_toUpperCase_error barcode_type_key_error intro!: regular_InlI
      split: sum.splits)

lemma safe_barcode: "safe p (barcode e code type a2 a3 a4 a5 p)"
proof -
  obtain w h position fnt includeParity
    where args: "barcode_arguments a2 a3 a4 a5 = (w, h, position, fnt, includeParity)"
    by (metis prod_cases5)
  show ?thesis
    unfolding barcode_def args
    by (auto simp: Let_def intro!: regular_safe regular_barcode_setup)
qed

lemma safe_qrcode: "safe p (qrcode e code version level sz p)"
proof (cases "this_model p \<noteq> Str (js ''qsprinter'')")
  case True
  then show ?thesis
    unfolding qrcode_def Let_def
    by (auto dest!: call_toUpperCase_error intro!: regular_safe regular_InlI split: sum.splits)
next
  case False
  show ?thesis
  proof (cases "iconv_encode e code (js ''utf8'')")
    case None
    then show ?thesis using False
      by (simp add: qrcode_def safe_def)
  next
    case (Some dataRaw)
    then show ?thesis using False
      unfolding qrcode_def Let_def
      by (auto intro!: regular_safe)
  qed
qed

lemma extends_image_line: "extends p q \<Longrightarrow> extends p (image_line e header n q line)"
  by (auto simp: image_line_def Let_def writeUInt16LE_def)

lemma extends_image_lines:
  "extends p q \<Longrightarrow> extends p (foldl (image_line e header n) q bitmap)"
  by (induction bitmap arbitrary: q) (auto intro: extends_image_line)

lemma safe_image_op: "safe p (image_op e img density p)"
proof (cases img)
  case NotAnImage
  then show ?thesis by (simp add: image_op_def)
next
  case (Image i)
  then show ?thesis
    unfolding image_op_def Let_def
    by (auto dest!: call_toUpperCase_error
        intro!: regular_safe regular_InlI regular_simple extends_image_lines split: sum.splits)
qed

lemma safe_raster: "safe p (raster e img mode p)"
proof (cases img)
  case NotAnImage
  then show ?thesis by (simp add: raster_def)
next
  case (Image i)
  then show ?thesis
    unfolding raster_def Let_def
    by (auto dest!: call_toUpperCase_error intro!: regular_safe regular_InlI split: sum.splits)
qed

lemma regular_text_op [intro!]: "extends p q \<Longrightarrow> regular p (text_op e s enc q)"
  by (rule regular_text)

lemma regular_align [intro!]: "extends p q \<Longrightarrow> regular p (align e v q)"
  by (rule regular_keyed)

lemma regular_size_op [intro!]: "extends p q \<Longrightarrow> regular p (size_op e w h q)"
  by (auto simp: size_op_def Let_def)

lemma regular_small:
  assumes "extends p q"
  shows "regular p (cashdraw e pin q)" "regular p (color e c q)" "regular p (table_op e cells enc q)"
  using assms
  by (auto simp: cashdraw_def color_def table_op_def Let_def intro: regular_InlI split: option.splits)

lemma regular_lineTitle: "extends p q \<Longrightarrow> regular p (lineTitle e t charLength q)"
  by (auto simp: lineTitle_def Let_def)

lemma regular_controlText: "extends p q \<Longrightarrow> regular p (controlText e l r wrapByte q)"
  by (auto simp: controlText_def Let_def)

lemma regular_threeColumnLayout: "extends p q \<Longrightarrow> regular p (threeColumnLayout e txt wrapByte q)"
  by (auto simp: threeColumnLayout_def Let_def)

lemma regular_fourColumn_row [intro!]:
  "extends p q \<Longrightarrow> regular p (fourColumn_row e l1 l2 l3 wrapByte itemx q)"
  by (auto simp: fourColumn_row_def Let_def)

lemma regular_fourColumn_rows [intro!]:
  "extends p q \<Longrightarrow> regular p (fourColumn_rows e l1 l2 l3 wrapByte rows q)"
  by (induction rows arbitrary: q) auto

lemma regular_fourColumnLayout:
  "extends p q \<Longrightarrow> regular p (fourColumnLayout e thead tbody wrapByte q)"
  by (auto simp: fourColumnLayout_def Let_def intro: regular_InlI)

lemma safe_apply_op: "safe p (apply_op e x p)"
proof (cases x)
  case (Barcode code type a2 a3 a4 a5)
  then show ?thesis by (simp add: safe_barcode)
next
  case (Qrcode code version level sz)
  then show ?thesis by (simp add: safe_qrcode)
next
  case (ImageOp img density)
  then show ?thesis by (simp add: safe_image_op)
next
  case (Raster img mode)
  then show ?thesis by (simp add: safe_raster)
qed (auto intro!: regular_safe regular_simple regular_text regular_drawLine
      regular_keyed regular_cut regular_raw regular_small regular_lineTitle regular_controlText
      regular_threeColumnLayout regular_fourColumnLayout)

lemma safe_extends: "safe p r \<Longrightarrow> extends p (final r)"
  by (auto simp: safe_def final_def split: sum.splits if_splits)

lemma explicit_throw_leaves_printer:
  "apply_op e x p = Inl (err, q) \<Longrightarrow> explicit_throw err \<Longrightarrow> q = p"
  using safe_apply_op [of p e x] by (simp add: safe_def)

subsection \<open>Every step adds to the stream\<close>

lemma final_simps [simp]: "final (Inl (err, s)) = s" "final (Inr s) = s"
  by (simp_all add: final_def)

lemma final_in_session [simp]: "the_printer (final (in_session s r)) = final r"
  by (auto simp: in_session_def split: sum.splits)

lemma tableCustom_depth_extends:
  "extends (the_printer s) (the_printer (final (tableCustom_depth depth e data encoding s)))"
proof (induction depth arbitrary: data encoding s)
  case 0
  show ?case by simp
next
  case (Suc depth)
  show ?case
  proof (cases "tableCustom_row (MAX_STRING_LENGTH e) (this_width (the_printer s)) data (cell_objects s)")
    case (Inl a)
    then show ?thesis by (cases a) simp
  next
    case (Inr r)
    obtain lineStr secondLine more objs where r: "r = (lineStr, secondLine, more, objs)"
      by (metis prod_cases4)
    show ?thesis
    proof (cases "concat_limited (MAX_STRING_LENGTH e) lineStr (EOL e)")
      case None
      then show ?thesis using Inr r by simp
    next
      case (Some line)
      show ?thesis
      proof (cases "iconv_encode e line (encoding_or encoding (the_printer s))")
        case None
        then show ?thesis using Inr r Some by simp
      next
        case b: (Some b)
        show ?thesis
        proof (cases more)
          case True
          have "extends (buffer_write b (the_printer s))
                  (the_printer (final (tableCustom_depth depth e secondLine None
                     (s\<lparr>the_printer := buffer_write b (the_printer s), cell_objects := objs\<rparr>))))"
            using Suc.IH [where data = secondLine and encoding = None
                and s = "s\<lparr>the_printer := buffer_write b (the_printer s), cell_objects := objs\<rparr>"]
            by simp
          then have "extends (the_printer s)
                  (the_printer (final (tableCustom_depth depth e secondLine None
                     (s\<lparr>the_printer := buffer_write b (the_printer s), cell_objects := objs\<rparr>))))"
            by (rule extends_trans [OF extends_write [OF extends_refl]])
          then show ?thesis using Inr r Some b True by simp
        next
          case False
          then show ?thesis using Inr r Some b by (simp add: extends_write)
        qed
      qed
    qed
  qed
qed

lemma qrimage_printer: "the_printer (final (qrimage e content options s)) = the_printer s"
  by (simp add: qrimage_def Let_def split: option.splits)

lemma getPixels_callback_extends:
  "extends (the_printer s) (the_printer (final (getPixels_callback e n s)))"
  by (auto simp: getPixels_callback_def Let_def intro: safe_extends safe_raster
      split: option.splits)

lemma step_extends:
  "buffering x \<Longrightarrow> extends (the_printer s) (the_printer (final (step e x s)))"
proof (cases x)
  case (Call op)
  then show ?thesis by (simp add: safe_extends safe_apply_op)
next
  case (TableCustom data encoding)
  then show ?thesis by (simp add: tableCustom_def tableCustom_depth_extends)
next
  case (Qrimage content options)
  then show ?thesis by (simp add: qrimage_printer)
next
  case (Callback n)
  then show ?thesis by (simp add: getPixels_callback_extends)
qed simp_all

lemma extends_follows: "extends p q \<Longrightarrow> follows p q"
  by (auto simp: extends_iff follows_def stream_def)

lemma follows_flush: "follows p (final (flush p))"
  by (simp add: flush_def Let_def follows_def stream_def)

lemma follows_close: "follows p (final (close p))"
  by (simp add: close_def flush_def Let_def and_then_def follows_def stream_def)

lemma follows_iff:
  "follows p q \<longleftrightarrow>
     (\<exists>bs. stream q = stream p @ bs) \<and> (\<exists>chunks. adapter_written q = adapter_written p @ chunks)"
  unfolding follows_def
  by (metis append_eq_conv_conj append_take_drop_id)

lemma follows_trans: "follows p q \<Longrightarrow> follows q r \<Longrightarrow> follows p r"
  by (auto simp: follows_iff)

lemma step_follows: "follows (the_printer s) (the_printer (final (step e x s)))"
proof (cases "buffering x")
  case True
  then show ?thesis by (simp add: extends_follows step_extends)
next
  case False
  then show ?thesis
    by (cases x) (simp_all add: follows_flush follows_close)
qed

lemma run_stream:
  "stream (the_printer (final (run e evs s))) = stream (the_printer s) @ concat (appended e evs s)
   \<and> (\<exists>chunks. adapter_written (the_printer (final (run e evs s)))
                   = adapter_written (the_printer s) @ chunks)"
proof (induction evs arbitrary: s)
  case Nil
  show ?case by simp
next
  case (Cons x xs)
  from step_follows [of s e x] obtain bs chunks where
    bs: "stream (the_printer (final (step e x s))) = stream (the_printer s) @ bs"
    and chunks: "adapter_written (the_printer (final (step e x s)))
                   = adapter_written (the_printer s) @ chunks"
    by (auto simp: follows_iff)
  show ?case
  proof (cases "step e x s")
    case (Inl a)
    then show ?thesis using bs chunks by (cases a) (simp add: Let_def)
  next
    case (Inr s1)
    from Cons.IH [of s1] bs chunks Inr show ?thesis
      by (auto simp: Let_def)
  qed
qed

lemma run_extends:
  "list_all buffering evs \<Longrightarrow> extends (the_printer s) (the_printer (final (run e evs s)))"
proof (induction evs arbitrary: s)
  case Nil
  show ?case by simp
next
  case (Cons x xs)
  then have x: "buffering x" and xs: "list_all buffering xs" by simp_all
  show ?case
  proof (cases "step e x s")
    case (Inl a)
    then show ?thesis using step_extends [OF x, of s e] by (cases a) simp
  next
    case (Inr s1)
    then show ?thesis using step_extends [OF x, of s e] Cons.IH [OF xs, of s1]
      by (auto intro: extends_trans)
  qed
qed

lemma run_buffer:
  assumes "list_all buffering evs"
  shows "this_buffer (the_printer (final (run e evs s)))
           = this_buffer (the_printer s) @ concat (appended e evs s)
         \<and> adapter_written (the_printer (final (run e evs s))) = adapter_written (the_printer s)"
proof -
  from run_extends [OF assms, of s e]
  have w: "adapter_written (the_printer (final (run e evs s))) = adapter_written (the_printer s)"
    by (simp add: extends_def)
  from run_stream [of e evs s]
  have "stream (the_printer (final (run e evs s)))
          = stream (the_printer s) @ concat (appended e evs s)"
    by blast
  then show ?thesis using w by (simp add: stream_def)
qed

subsection \<open>Flushing\<close>

text \<open>
  C5. The claim: for every sequence of builder operations followed by \<open>flush\<close>, the
  adapter is handed the concatenation, in call order, of the bytes each operation
  appended since the last flush. It fails for \<open>qrimage\<close>, which returns before its
  bytes are appended. In \<open>qrimage('x')\<close>, then \<open>text('A')\<close>, the call of \<open>qrimage\<close>
  appends nothing, \<open>text\<close> appends its two bytes, and the raster of \<open>qrimage\<close> is
  appended when \<open>getPixels\<close> calls back: a \<open>flush\<close> after the callback hands the adapter
  the bytes of \<open>text\<close>, the second call, before those of \<open>qrimage\<close>, the first; and a
  \<open>flush\<close> chained to the two calls hands it the bytes of \<open>text\<close> only, the raster
  following in a later write.
\<close>

theorem qrimage_bytes_out_of_call_order:
  "appended sample_env [Qrimage (js ''x'') None, Call (Text (js ''A'') None), Callback 0] new_session
     = [[], [0x41, 0x0A], sample_raster]
   \<and> adapter_written (the_printer (final (run sample_env
         [Qrimage (js ''x'') None, Call (Text (js ''A'') None), Callback 0, Flush] new_session)))
       = [[0x41, 0x0A] @ sample_raster]
   \<and> [0x41, 0x0A] @ sample_raster \<noteq> sample_raster @ [0x41, 0x0A]
   \<and> adapter_written (the_printer (final (run sample_env
         [Qrimage (js ''x'') None, Call (Text (js ''A'') None), Flush] new_session)))
       = [[0x41, 0x0A]]
   \<and> adapter_written (the_printer (final (run sample_env
         [Qrimage (js ''x'') None, Call (Text (js ''A'') None), Flush, Callback 0, Flush] new_session)))
       = [[0x41, 0x0A], sample_raster]"
proof -
  have a: "appended sample_env [Qrimage (js ''x'') None, Call (Text (js ''A'') None), Callback 0]
      new_session = [[], [0x41, 0x0A], sample_raster]"
    by code_simp
  have b: "adapter_written (the_printer (final (run sample_env
         [Qrimage (js ''x'') None, Call (Text (js ''A'') None), Callback 0, Flush] new_session)))
       = [[0x41, 0x0A] @ sample_raster]"
    by code_simp
  have c: "[0x41, 0x0A] @ sample_raster \<noteq> sample_raster @ [0x41, 0x0A]"
    by (simp add: sample_raster_def)
  have d: "adapter_written (the_printer (final (run sample_env
         [Qrimage (js ''x'') None, Call (Text (js ''A'') None), Flush] new_session)))
       = [[0x41, 0x0A]]"
    by code_simp
  have f: "adapter_written (the_printer (final (run sample_env
         [Qrimage (js ''x'') None, Call (Text (js ''A'') None), Flush, Callback 0, Flush] new_session)))
       = [[0x41, 0x0A], sample_raster]"
    by code_simp
  from a b c d f show ?thesis by (intro conjI)
qed

text \<open>
  C5, as the code has it. Take any sequence of calls (\<open>tableCustom\<close> and \<open>qrimage\<close>
  among them), of flushes and of callbacks of \<open>getPixels\<close>, from any state, whether the
  sequence returns or one of its steps throws. The bytes the adapter has been handed,
  write after write, followed by the bytes in the buffer, are those of before followed
  by the bytes each step appended, in the order of the steps, and what the adapter had
  been handed before stays as it was: no byte is reordered, changed, dropped or
  inserted. When no step of the sequence is a flush, a \<open>flush\<close> after it hands the
  adapter, in one write, the buffer of before followed by the bytes each step appended,
  and leaves the buffer empty. A call appends its bytes before it returns, except
  \<open>qrimage\<close>, which leaves the printer as it is: its raster is what \<open>raster\<close> appends
  when the callback of \<open>getPixels\<close> runs.
\<close>

theorem flush_hands_over_appended_bytes:
  "stream (the_printer (final (run e evs s))) = stream (the_printer s) @ concat (appended e evs s)
   \<and> (\<exists>chunks. adapter_written (the_printer (final (run e evs s)))
                   = adapter_written (the_printer s) @ chunks)
   \<and> (list_all buffering evs \<longrightarrow>
        (\<exists>q. flush (the_printer (final (run e evs s))) = Inr q
           \<and> adapter_written q
               = adapter_written (the_printer s)
                   @ [this_buffer (the_printer s) @ concat (appended e evs s)]
           \<and> this_buffer q = []))
   \<and> the_printer (final (qrimage e content options s)) = the_printer s
   \<and> (\<forall>n. n < length (pending s) \<longrightarrow>
          the_printer (final (getPixels_callback e n s))
            = (case cb_pixels (pending s ! n) of
                 None \<Rightarrow> the_printer s
               | Some i \<Rightarrow> final (raster e (Image i) (cb_mode (pending s ! n)) (the_printer s))))"
proof (intro conjI impI allI)
  show "stream (the_printer (final (run e evs s)))
          = stream (the_printer s) @ concat (appended e evs s)"
    using run_stream [of e evs s] by blast
next
  show "\<exists>chunks. adapter_written (the_printer (final (run e evs s)))
                   = adapter_written (the_printer s) @ chunks"
    using run_stream [of e evs s] by blast
next
  assume "list_all buffering evs"
  from run_buffer [OF this, of e s]
  show "\<exists>q. flush (the_printer (final (run e evs s))) = Inr q
           \<and> adapter_written q
               = adapter_written (the_printer s)
                   @ [this_buffer (the_printer s) @ concat (appended e evs s)]
           \<and> this_buffer q = []"
    by (simp add: flush_def Let_def)
next
  show "the_printer (final (qrimage e content options s)) = the_printer s"
    by (rule qrimage_printer)
next
  fix n
  assume "n < length (pending s)"
  then show "the_printer (final (getPixels_callback e n s))
            = (case cb_pixels (pending s ! n) of
                 None \<Rightarrow> the_printer s
               | Some i \<Rightarrow> final (raster e (Image i) (cb_mode (pending s ! n)) (the_printer s)))"
    by (simp add: getPixels_callback_def Let_def split: option.splits)
qed

theorem flush_hands_over_appended_bytes_witness:
  "list_all buffering short_events
   \<and> appended sample_env short_events new_session
       = [[0x41, 0x0A], [0x0A], [0x1D, 0x77, 0x06],
          [0xC3, 0xA9, 0x61, 0xC3, 0xA9, 0x20, 0x0A, 0x62, 0x3F, 0x63, 0x20, 0x0A], [], sample_raster]
   \<and> (\<exists>q. flush (the_printer (final (run sample_env short_events new_session))) = Inr q
          \<and> adapter_written q
              = [[0x41, 0x0A, 0x0A, 0x1D, 0x77, 0x06, 0xC3, 0xA9, 0x61, 0xC3, 0xA9, 0x20, 0x0A,
                  0x62, 0x3F, 0x63, 0x20, 0x0A] @ sample_raster]
          \<and> this_buffer q = [])
   \<and> 0 < length (pending pending_session)
   \<and> the_printer (final (getPixels_callback sample_env 0 pending_session))
       = new_printer\<lparr>this_buffer := sample_raster\<rparr>"
proof -
  have l: "list_all buffering short_events"
    by (simp add: short_events_def)
  have a: "appended sample_env short_events new_session
       = [[0x41, 0x0A], [0x0A], [0x1D, 0x77, 0x06],
          [0xC3, 0xA9, 0x61, 0xC3, 0xA9, 0x20, 0x0A, 0x62, 0x3F, 0x63, 0x20, 0x0A], [], sample_raster]"
    by code_simp
  have np: "this_buffer (the_printer new_session) = []"
      "adapter_written (the_printer new_session) = []"
    by (simp_all add: new_session_def new_printer_def)
  have n: "0 < length (pending pending_session)"
    by (simp add: pending_session_def)
  have c: "cb_pixels (pending pending_session ! 0) = Some sample_image"
      "cb_mode (pending pending_session ! 0) = Str (js ''dhdw'')"
      "the_printer pending_session = new_printer"
    by (simp_all add: pending_session_def new_session_def)
  have r: "final (raster sample_env (Image sample_image) (Str (js ''dhdw'')) new_printer)
      = new_printer\<lparr>this_buffer := sample_raster\<rparr>"
    by code_simp
  note t = flush_hands_over_appended_bytes [of sample_env short_events new_session]
  note u = flush_hands_over_appended_bytes [of sample_env "[]" pending_session]
  from t l have "\<exists>q. flush (the_printer (final (run sample_env short_events new_session))) = Inr q
          \<and> adapter_written q
              = adapter_written (the_printer new_session)
                  @ [this_buffer (the_printer new_session)
                     @ concat (appended sample_env short_events new_session)]
          \<and> this_buffer q = []"
    by blast
  then have f: "\<exists>q. flush (the_printer (final (run sample_env short_events new_session))) = Inr q
          \<and> adapter_written q
              = [[0x41, 0x0A, 0x0A, 0x1D, 0x77, 0x06, 0xC3, 0xA9, 0x61, 0xC3, 0xA9, 0x20, 0x0A,
                  0x62, 0x3F, 0x63, 0x20, 0x0A] @ sample_raster]
          \<and> this_buffer q = []"
    by (simp add: a np)
  from u n have "the_printer (final (getPixels_callback sample_env 0 pending_session))
            = (case cb_pixels (pending pending_session ! 0) of
                 None \<Rightarrow> the_printer pending_session
               | Some i \<Rightarrow> final (raster sample_env (Image i) (cb_mode (pending pending_session ! 0))
                            (the_printer pending_session)))"
    by blast
  then have g: "the_printer (final (getPixels_callback sample_env 0 pending_session))
       = new_printer\<lparr>this_buffer := sample_raster\<rparr>"
    by (simp add: c r)
  from l a f n g show ?thesis by (intro conjI)
qed

subsection \<open>Errors of the InvalidArgument kind\<close>

lemma utf8_encode_letters: "utf8_encode (replicate n 0x41) = replicate n 0x41"
  by (induction n) (simp_all add: high_surrogate_def low_surrogate_def utf8_of_def)

text \<open>
  C6. The claim: a call that fails with an error of the \<open>InvalidArgument\<close> kind leaves
  the buffer and the state as they were, for \<open>barcode\<close> with a payload of the wrong
  length, for \<open>qrcode\<close> with a QSPrinter payload that is out of range, and for \<open>image\<close>
  and \<open>raster\<close> with a value that is not an image. \<open>barcode\<close>, \<open>image\<close> and \<open>raster\<close>
  throw before they write (\<open>explicit_throw_leaves_printer\<close>). \<open>qrcode\<close> does not: its
  test of the length (line 631) never throws, so a payload that is out of range is
  written like any other, and from 65533 bytes on, where the declared length no longer
  fits 16 bits, the call throws a \<open>RangeError\<close> after it has appended the commands for
  the pixel size, the version and the level and the first part of the command that
  stores the payload.
\<close>

theorem qrcode_qsprinter_oversized_fails_after_writes:
  "this_buffer qs_printer = []
   \<and> qrcode sample_env (replicate 65533 0x41) Undefined Undefined Undefined qs_printer
       = Inl (OutOfRange,
              qs_printer\<lparr>this_buffer :=
                [0x1B, 0x23, 0x23, 0x51, 0x50, 0x49, 0x58, 12,
                 0x1D, 0x28, 0x6B, 0x03, 0x00, 0x31, 0x43, 3,
                 0x1D, 0x28, 0x6B, 0x03, 0x00, 0x31, 0x45] @ key_bytes (js ''L'') @
                [0x1D, 0x28, 0x6B]\<rparr>)
   \<and> InvalidArgument OutOfRange"
proof -
  have a: "this_buffer qs_printer = []"
    by (simp add: qs_printer_def new_printer_def)
  have u: "ascii_upper (js ''L'') = js ''L''"
    by code_simp
  have "qrcode sample_env (replicate 65533 0x41) Undefined Undefined Undefined qs_printer
       = Inl (OutOfRange,
              qs_printer\<lparr>this_buffer :=
                [0x1B, 0x23, 0x23, 0x51, 0x50, 0x49, 0x58, 12,
                 0x1D, 0x28, 0x6B, 0x03, 0x00, 0x31, 0x43, 3,
                 0x1D, 0x28, 0x6B, 0x03, 0x00, 0x31, 0x45] @ key_bytes (js ''L'') @
                [0x1D, 0x28, 0x6B]\<rparr>)"
    by (simp add: qrcode_def qs_printer_def new_printer_def sample_env_def sample_iconv_def
        utf8_encode_letters and_then_def writeUInt8_def writeUInt16LE_def buffer_write_def
        Let_def u)
  then show ?thesis using a by simp
qed

subsection \<open>Barcodes\<close>

lemma js_nonempty [simp]: "js (c # cs) \<noteq> []"
  by (simp add: js_def)

lemma or_else_Str [simp]: "or_else (Str (js (c # cs))) d = Str (js (c # cs))"
  by (simp add: or_else_def)

lemma this_model_write_string [simp]: "this_model (write_string s p) = this_model p"
  by (simp add: write_string_def)

lemma js_char_inverse: "char_of (unat (of_nat (of_char c) :: char16)) = c"
proof -
  have "(of_char c :: nat) < 256" by simp
  then have "(of_char c :: nat) < 65536" by linarith
  then have "unat (of_nat (of_char c) :: char16) = of_char c"
    by (simp add: unat_of_nat)
  then show ?thesis by simp
qed

lemma js_eq_iff [simp]: "js a = js b \<longleftrightarrow> a = b"
proof
  assume "js a = js b"
  then have "map (\<lambda>w. char_of (unat w)) (js a) = map (\<lambda>w. char_of (unat w)) (js b)"
    by simp
  then show "a = b"
    by (simp add: js_def comp_def js_char_inverse)
qed simp

lemma barcode_success:
  assumes "barcode_arguments a2 a3 a4 a5 = (w, h, position, fnt, includeParity)"
    and "type = or_else type0 (Str (js ''EAN13''))"
    and "barcode e code type0 a2 a3 a4 a5 p = Inr p'"
  shows "\<exists>p1. barcode_setup e type w h position fnt p = Inr p1
           \<and> p' = mode_off e (write_string (barcode_frame code type includeParity) p1)"
  using assms(3) unfolding barcode_def assms(1) assms(2) [symmetric]
  by (auto simp: Let_def and_then_def mode_off_def split: if_splits sum.splits)

lemma barcode_setup_defaults:
  "\<exists>p1. barcode_setup e (Str (js ''EAN13'')) Undefined Undefined Undefined Undefined p = Inr p1"
  by (simp add: barcode_setup_def Let_def and_then_def or_else_def)

lemma barcode_explicit_throw_EAN13:
  "(\<exists>err q. barcode e code (Str (js ''EAN13'')) a2 a3 a4 a5 p = Inl (err, q) \<and> explicit_throw err)
   \<longleftrightarrow> length code \<noteq> 12"
proof
  assume "\<exists>err q. barcode e code (Str (js ''EAN13'')) a2 a3 a4 a5 p = Inl (err, q) \<and> explicit_throw err"
  then obtain err q where
    r: "barcode e code (Str (js ''EAN13'')) a2 a3 a4 a5 p = Inl (err, q)" and ia: "explicit_throw err"
    by blast
  obtain w h position fnt includeParity
    where args: "barcode_arguments a2 a3 a4 a5 = (w, h, position, fnt, includeParity)"
    by (metis prod_cases5)
  show "length code \<noteq> 12"
  proof
    assume len: "length code = 12"
    have "regular p (barcode e code (Str (js ''EAN13'')) a2 a3 a4 a5 p)"
      unfolding barcode_def args
      by (auto simp: Let_def len intro!: regular_barcode_setup)
    then show False using r ia by (simp add: regular_def)
  qed
next
  assume "length code \<noteq> 12"
  then have "barcode e code (Str (js ''EAN13'')) a2 a3 a4 a5 p = Inl (EAN13CodeLength, p)"
    by (simp add: barcode_def Let_def split: prod.splits)
  then show "\<exists>err q. barcode e code (Str (js ''EAN13'')) a2 a3 a4 a5 p = Inl (err, q) \<and> explicit_throw err"
    by simp
qed

text \<open>
  C2. For every payload string, \<open>barcode\<close> with the symbology \<open>EAN13\<close> throws an
  error of one of its \<open>throw\<close> statements if and only if the payload's length is not
  12; the error is that of the length check, and it is thrown before anything is
  written. With a payload of length 12 the call \<open>barcode(payload, "EAN13")\<close> returns,
  and so does every call with options that do not set \<open>includeParity\<close> to \<open>false\<close> once
  the commands before the payload are written; what is written after those commands is
  the string of the 12 payload characters, \<open>getParityBit(payload)\<close> and the character
  \<open>0x00\<close> (followed, on a QSPrinter, by the command that leaves the barcode mode). So
  the call \<open>barcode(payload, "EAN13")\<close> fails with an error of the \<open>InvalidArgument\<close>
  kind if and only if the payload's length is not 12.
\<close>

theorem barcode_EAN13_length_and_frame:
  "((\<exists>err q. barcode e code (Str (js ''EAN13'')) a2 a3 a4 a5 p = Inl (err, q) \<and> explicit_throw err)
      \<longleftrightarrow> length code \<noteq> 12)
   \<and> (length code \<noteq> 12 \<longrightarrow>
        barcode e code (Str (js ''EAN13'')) a2 a3 a4 a5 p = Inl (EAN13CodeLength, p))
   \<and> (length code = 12 \<longrightarrow>
        (\<exists>p1. barcode_setup e (Str (js ''EAN13'')) Undefined Undefined Undefined Undefined p = Inr p1
           \<and> barcode e code (Str (js ''EAN13'')) (Val Undefined) Undefined Undefined Undefined p
               = Inr (mode_off e (write_string (code @ getParityBit code @ [0x00]) p1))))
   \<and> (length code = 12 \<and> opt_includeParity options \<noteq> Bool False
        \<and> barcode e code (Str (js ''EAN13'')) (Obj options) a3 a4 a5 p = Inr p' \<longrightarrow>
        (\<exists>p1. barcode_setup e (Str (js ''EAN13'')) (opt_width options) (opt_height options)
                 (opt_position options) (opt_font options) p = Inr p1
           \<and> p' = mode_off e (write_string (code @ getParityBit code @ [0x00]) p1)))
   \<and> ((\<exists>err q. barcode e code (Str (js ''EAN13'')) (Val Undefined) Undefined Undefined Undefined p
                  = Inl (err, q) \<and> InvalidArgument err)
        \<longleftrightarrow> length code \<noteq> 12)"
proof (intro conjI impI)
  show "(\<exists>err q. barcode e code (Str (js ''EAN13'')) a2 a3 a4 a5 p = Inl (err, q) \<and> explicit_throw err)
      \<longleftrightarrow> length code \<noteq> 12"
    by (rule barcode_explicit_throw_EAN13)
next
  show "(\<exists>err q. barcode e code (Str (js ''EAN13'')) (Val Undefined) Undefined Undefined Undefined p
                  = Inl (err, q) \<and> InvalidArgument err)
        \<longleftrightarrow> length code \<noteq> 12"
  proof (cases "length code = 12")
    case True
    obtain p1 where
      "barcode_setup e (Str (js ''EAN13'')) Undefined Undefined Undefined Undefined p = Inr p1"
      using barcode_setup_defaults by blast
    then have "barcode e code (Str (js ''EAN13'')) (Val Undefined) Undefined Undefined Undefined p
        = Inr (mode_off e (write_string (code @ getParityBit code @ [0x00]) p1))"
      by (simp add: barcode_def Let_def True and_then_def mode_off_def barcode_frame_def)
    then show ?thesis using True by simp
  next
    case False
    then have "barcode e code (Str (js ''EAN13'')) (Val Undefined) Undefined Undefined Undefined p
        = Inl (EAN13CodeLength, p)"
      by (simp add: barcode_def Let_def split: prod.splits)
    then show ?thesis using False by simp
  qed
next
  assume "length code \<noteq> 12"
  then show "barcode e code (Str (js ''EAN13'')) a2 a3 a4 a5 p = Inl (EAN13CodeLength, p)"
    by (simp add: barcode_def Let_def split: prod.splits)
next
  assume len: "length code = 12"
  obtain p1 where
    s: "barcode_setup e (Str (js ''EAN13'')) Undefined Undefined Undefined Undefined p = Inr p1"
    using barcode_setup_defaults by blast
  have "barcode e code (Str (js ''EAN13'')) (Val Undefined) Undefined Undefined Undefined p
        = Inr (mode_off e (write_string (code @ getParityBit code @ [0x00]) p1))"
    by (simp add: barcode_def Let_def len s and_then_def mode_off_def barcode_frame_def)
  with s show "\<exists>p1. barcode_setup e (Str (js ''EAN13'')) Undefined Undefined Undefined Undefined p = Inr p1
           \<and> barcode e code (Str (js ''EAN13'')) (Val Undefined) Undefined Undefined Undefined p
               = Inr (mode_off e (write_string (code @ getParityBit code @ [0x00]) p1))"
    by blast
next
  assume a: "length code = 12 \<and> opt_includeParity options \<noteq> Bool False
        \<and> barcode e code (Str (js ''EAN13'')) (Obj options) a3 a4 a5 p = Inr p'"
  have args: "barcode_arguments (Obj options) a3 a4 a5 =
      (opt_width options, opt_height options, opt_position options, opt_font options, Bool True)"
    using a by simp
  from barcode_success [OF args _ conjunct2 [OF conjunct2 [OF a]], of "Str (js ''EAN13'')"]
  show "\<exists>p1. barcode_setup e (Str (js ''EAN13'')) (opt_width options) (opt_height options)
                 (opt_position options) (opt_font options) p = Inr p1
           \<and> p' = mode_off e (write_string (code @ getParityBit code @ [0x00]) p1)"
    by (simp add: barcode_frame_def)
qed

theorem barcode_EAN13_length_and_frame_witness:
  "length (js ''12345678901'') \<noteq> 12
   \<and> barcode sample_env (js ''12345678901'') (Str (js ''EAN13'')) (Val Undefined) Undefined Undefined
        Undefined new_printer = Inl (EAN13CodeLength, new_printer)
   \<and> length (js ''123456789012'') = 12
   \<and> getParityBit (js ''123456789012'') = js ''8''
   \<and> barcode sample_env (js ''123456789012'') (Str (js ''EAN13'')) (Val Undefined) Undefined Undefined
        Undefined new_printer
       = Inr (new_printer\<lparr>this_buffer :=
           key_bytes (js ''BARCODE_WIDTH_DEFAULT'') @ key_bytes (js ''BARCODE_HEIGHT_DEFAULT'')
           @ key_bytes (js ''BARCODE_FONT_A'') @ key_bytes (js ''BARCODE_TXT_BLW'')
           @ key_bytes (js ''BARCODE_EAN13'')
           @ [0x31, 0x32, 0x33, 0x34, 0x35, 0x36, 0x37, 0x38, 0x39, 0x30, 0x31, 0x32, 0x38, 0x00]\<rparr>)"
proof -
  have l1: "length (js ''12345678901'') \<noteq> 12" by (simp add: js_def)
  have l2: "length (js ''123456789012'') = 12" by (simp add: js_def)
  have g: "getParityBit (js ''123456789012'') = js ''8''" by code_simp
  have s: "barcode_setup sample_env (Str (js ''EAN13'')) Undefined Undefined Undefined Undefined new_printer
      = Inr (new_printer\<lparr>this_buffer :=
           key_bytes (js ''BARCODE_WIDTH_DEFAULT'') @ key_bytes (js ''BARCODE_HEIGHT_DEFAULT'')
           @ key_bytes (js ''BARCODE_FONT_A'') @ key_bytes (js ''BARCODE_TXT_BLW'')
           @ key_bytes (js ''BARCODE_EAN13'')\<rparr>)"
    by code_simp
  have m: "mode_off sample_env
         (write_string (js ''123456789012'' @ js ''8'' @ [0x00])
            (new_printer\<lparr>this_buffer :=
               key_bytes (js ''BARCODE_WIDTH_DEFAULT'') @ key_bytes (js ''BARCODE_HEIGHT_DEFAULT'')
               @ key_bytes (js ''BARCODE_FONT_A'') @ key_bytes (js ''BARCODE_TXT_BLW'')
               @ key_bytes (js ''BARCODE_EAN13'')\<rparr>))
       = new_printer\<lparr>this_buffer :=
           key_bytes (js ''BARCODE_WIDTH_DEFAULT'') @ key_bytes (js ''BARCODE_HEIGHT_DEFAULT'')
           @ key_bytes (js ''BARCODE_FONT_A'') @ key_bytes (js ''BARCODE_TXT_BLW'')
           @ key_bytes (js ''BARCODE_EAN13'')
           @ [0x31, 0x32, 0x33, 0x34, 0x35, 0x36, 0x37, 0x38, 0x39, 0x30, 0x31, 0x32, 0x38, 0x00]\<rparr>"
    by code_simp
  note short = barcode_EAN13_length_and_frame
      [of sample_env "js ''12345678901''" "Val Undefined" Undefined Undefined Undefined new_printer]
  note full = barcode_EAN13_length_and_frame
      [of sample_env "js ''123456789012''" "Val Undefined" Undefined Undefined Undefined new_printer]
  from short l1 have a: "barcode sample_env (js ''12345678901'') (Str (js ''EAN13'')) (Val Undefined)
      Undefined Undefined Undefined new_printer = Inl (EAN13CodeLength, new_printer)"
    by blast
  from full l2 have b: "barcode sample_env (js ''123456789012'') (Str (js ''EAN13'')) (Val Undefined)
      Undefined Undefined Undefined new_printer
      = Inr (mode_off sample_env
          (write_string (js ''123456789012'' @ js ''8'' @ [0x00])
            (new_printer\<lparr>this_buffer :=
               key_bytes (js ''BARCODE_WIDTH_DEFAULT'') @ key_bytes (js ''BARCODE_HEIGHT_DEFAULT'')
               @ key_bytes (js ''BARCODE_FONT_A'') @ key_bytes (js ''BARCODE_TXT_BLW'')
               @ key_bytes (js ''BARCODE_EAN13'')\<rparr>)))"
    by (auto simp: s g)
  show ?thesis using a b l1 l2 g by (simp only: m) simp
qed

text \<open>
  C9. For every call of \<open>barcode\<close> whose third argument is a string or a number,
  \<open>includeParity\<close> stays \<open>undefined\<close>; when the call returns, what it has written after
  the commands before the payload is the length prefix (for \<open>CODE128\<close> and \<open>CODE93\<close>),
  the payload and the character \<open>0x00\<close>, with no check digit, also for \<open>EAN13\<close> and
  \<open>EAN8\<close>. With an options object that does not set \<open>includeParity\<close> to \<open>false\<close>, the
  check digit of an \<open>EAN13\<close> or \<open>EAN8\<close> payload is written between the payload and the
  terminator.
\<close>

theorem barcode_positional_omits_parity:
  assumes "is_number wd \<or> is_string wd"
  shows "barcode_arguments (Val wd) a3 a4 a5 = (wd, a3, a4, a5, Undefined)
     \<and> (\<forall>p'. barcode e code type (Val wd) a3 a4 a5 p = Inr p' \<longrightarrow>
          (\<exists>p1. barcode_setup e (or_else type (Str (js ''EAN13''))) wd a3 a4 a5 p = Inr p1
             \<and> p' = mode_off e
                      (write_string
                         ((if or_else type (Str (js ''EAN13'')) = Str (js ''CODE128'')
                              \<or> or_else type (Str (js ''EAN13'')) = Str (js ''CODE93'')
                           then codeLength code else []) @ code @ [0x00]) p1)))
     \<and> (\<forall>options p'. opt_includeParity options \<noteq> Bool False
            \<and> (type = Str (js ''EAN13'') \<or> type = Str (js ''EAN8''))
            \<and> barcode e code type (Obj options) a3 a4 a5 p = Inr p' \<longrightarrow>
          (\<exists>p1. barcode_setup e type (opt_width options) (opt_height options)
                   (opt_position options) (opt_font options) p = Inr p1
             \<and> p' = mode_off e (write_string (code @ getParityBit code @ [0x00]) p1)))"
proof (intro conjI allI impI)
  show args: "barcode_arguments (Val wd) a3 a4 a5 = (wd, a3, a4, a5, Undefined)"
    using assms by (cases wd) auto
  fix p'
  assume "barcode e code type (Val wd) a3 a4 a5 p = Inr p'"
  from barcode_success [OF args refl this]
  show "\<exists>p1. barcode_setup e (or_else type (Str (js ''EAN13''))) wd a3 a4 a5 p = Inr p1
             \<and> p' = mode_off e
                      (write_string
                         ((if or_else type (Str (js ''EAN13'')) = Str (js ''CODE128'')
                              \<or> or_else type (Str (js ''EAN13'')) = Str (js ''CODE93'')
                           then codeLength code else []) @ code @ [0x00]) p1)"
    by (simp add: barcode_frame_def)
next
  fix options p'
  assume a: "opt_includeParity options \<noteq> Bool False
            \<and> (type = Str (js ''EAN13'') \<or> type = Str (js ''EAN8''))
            \<and> barcode e code type (Obj options) a3 a4 a5 p = Inr p'"
  have args: "barcode_arguments (Obj options) a3 a4 a5 =
      (opt_width options, opt_height options, opt_position options, opt_font options, Bool True)"
    using a by simp
  have t: "type = or_else type (Str (js ''EAN13''))"
    using a by auto
  from barcode_success [OF args t] a
  show "\<exists>p1. barcode_setup e type (opt_width options) (opt_height options)
                   (opt_position options) (opt_font options) p = Inr p1
             \<and> p' = mode_off e (write_string (code @ getParityBit code @ [0x00]) p1)"
    by (auto simp: barcode_frame_def)
qed

theorem barcode_positional_omits_parity_witness:
  "is_number (Num 2)
   \<and> barcode sample_env (js ''123456789012'') (Str (js ''EAN13'')) (Val (Num 2)) (Num 100) Undefined
        Undefined new_printer
       = Inr (new_printer\<lparr>this_buffer :=
           [0x1D, 0x77, 0x1D, 0x68] @ key_bytes (js ''BARCODE_FONT_A'')
           @ key_bytes (js ''BARCODE_TXT_BLW'') @ key_bytes (js ''BARCODE_EAN13'')
           @ [0x31, 0x32, 0x33, 0x34, 0x35, 0x36, 0x37, 0x38, 0x39, 0x30, 0x31, 0x32, 0x00]\<rparr>)
   \<and> (\<exists>p1. barcode_setup sample_env (Str (js ''EAN13'')) (Num 2) (Num 100) Undefined Undefined
               new_printer = Inr p1
          \<and> new_printer\<lparr>this_buffer :=
               [0x1D, 0x77, 0x1D, 0x68] @ key_bytes (js ''BARCODE_FONT_A'')
               @ key_bytes (js ''BARCODE_TXT_BLW'') @ key_bytes (js ''BARCODE_EAN13'')
               @ [0x31, 0x32, 0x33, 0x34, 0x35, 0x36, 0x37, 0x38, 0x39, 0x30, 0x31, 0x32, 0x00]\<rparr>
             = mode_off sample_env (write_string (js ''123456789012'' @ [0x00]) p1))"
proof -
  have n: "is_number (Num 2) \<or> is_string (Num 2)" by simp
  have ev: "barcode sample_env (js ''123456789012'') (Str (js ''EAN13'')) (Val (Num 2)) (Num 100) Undefined
        Undefined new_printer
       = Inr (new_printer\<lparr>this_buffer :=
           [0x1D, 0x77, 0x1D, 0x68] @ key_bytes (js ''BARCODE_FONT_A'')
           @ key_bytes (js ''BARCODE_TXT_BLW'') @ key_bytes (js ''BARCODE_EAN13'')
           @ [0x31, 0x32, 0x33, 0x34, 0x35, 0x36, 0x37, 0x38, 0x39, 0x30, 0x31, 0x32, 0x00]\<rparr>)"
    by code_simp
  from barcode_positional_omits_parity [OF n, of "Num 100" Undefined Undefined sample_env
      "js ''123456789012''" "Str (js ''EAN13'')" new_printer] ev
  show ?thesis by simp
qed

subsection \<open>The length prefix\<close>

lemma codeLength_short: "length s < 16 \<Longrightarrow> codeLength s = []"
  by (simp add: codeLength_def toString16.simps Buffer_toString_def)

lemma unat_hex_char: "a < 16 \<Longrightarrow> unat (hex_char a) = (if a < 10 then 48 + a else 87 + a)"
proof (cases "a < 10")
  case True
  have "unat (of_nat (48 + a) :: char16) = 48 + a"
    using True by (subst unat_of_nat) simp
  then show ?thesis using True by (simp only: hex_char_def if_True)
next
  case False
  assume "a < 16"
  then have "unat (of_nat (87 + a) :: char16) = 87 + a"
    by (subst unat_of_nat) simp
  then show ?thesis using False by (simp only: hex_char_def if_False)
qed

lemma hex_value_hex_char: "a < 16 \<Longrightarrow> hex_value (hex_char a) = Some a"
  unfolding hex_value_def
  by (simp add: unat_hex_char Let_def)

lemma toString16_two_digits:
  "16 \<le> n \<Longrightarrow> n < 256 \<Longrightarrow> toString16 n = [hex_char (n div 16), hex_char (n mod 16)]"
  by (subst toString16.simps) (simp add: toString16.simps [of "n div 16"] div_less_iff_less_mult)

lemma codeLength_one_byte:
  assumes "16 \<le> length s" and "length s \<le> 127"
  shows "codeLength s = [of_nat (length s)]"
proof -
  define n where "n = length s"
  have n: "16 \<le> n" "n \<le> 127" using assms by (simp_all add: n_def)
  have d: "n div 16 < 16" using n by (simp add: div_less_iff_less_mult)
  have hex: "Buffer_from_hex (toString16 n) = [of_nat n]"
    using n d by (simp add: toString16_two_digits hex_value_hex_char)
  have small: "(of_nat n :: byte) < 0x80"
    using n by (simp add: word_less_nat_alt unat_of_nat)
  have u: "unat (of_nat n :: byte) = n"
    using n by (simp add: unat_of_nat)
  have "Buffer_toString [of_nat n] = [of_nat n]"
    using small n by (simp add: Buffer_toString_def utf16_of_def u)
  then show ?thesis
    by (simp add: codeLength_def hex n_def [symmetric])
qed

lemma codeLength_replacement:
  assumes "128 \<le> length s" and "length s \<le> 255"
  shows "codeLength s = [0xFFFD]"
proof -
  define n where "n = length s"
  have n: "128 \<le> n" "n \<le> 255" using assms by (simp_all add: n_def)
  have d: "n div 16 < 16" using n by (simp add: div_less_iff_less_mult)
  have hex: "Buffer_from_hex (toString16 n) = [of_nat n]"
    using n d by (simp add: toString16_two_digits hex_value_hex_char)
  have "\<not> (of_nat n :: byte) < 0x80"
    using n by (simp add: word_less_nat_alt unat_of_nat)
  then have "utf8_decode [of_nat n] = [0xFFFD]"
    by simp
  then have "Buffer_toString [of_nat n] = [0xFFFD]"
    by (simp add: Buffer_toString_def utf16_of_def)
  then show ?thesis
    by (simp add: codeLength_def hex n_def [symmetric])
qed

lemma utf8_of_replacement: "utf8_of 65533 = [0xEF, 0xBF, 0xBD]"
  by (simp add: utf8_of_def)

lemma utf8_encode_replacement: "utf8_encode [0xFFFD] = [0xEF, 0xBF, 0xBD]"
  by (simp add: utf8_of_replacement high_surrogate_def low_surrogate_def)

text \<open>
  C3. The claim: \<open>codeLength\<close> returns one byte whose value is the length of the
  payload, and a \<open>CODE128\<close> frame begins with it. For the five characters of
  \<open>HELLO\<close> the hexadecimal string is the single digit \<open>5\<close>, which decodes to no byte at
  all: \<open>codeLength\<close> returns the empty string and the frame is the payload and the
  terminator only. For a payload of 200 characters the byte \<open>0xC8\<close> is not UTF-8, so
  \<open>codeLength\<close> returns \<open>U+FFFD\<close>, which is written as three bytes.
\<close>

theorem codeLength_short_payload_no_prefix:
  "codeLength (js ''HELLO'') = []
   \<and> barcode_frame (js ''HELLO'') (Str (js ''CODE128'')) (Bool True) = js ''HELLO'' @ [0x00]
   \<and> utf8_encode (barcode_frame (js ''HELLO'') (Str (js ''CODE128'')) (Bool True))
       = [0x48, 0x45, 0x4C, 0x4C, 0x4F, 0x00]
   \<and> utf8_encode (codeLength (replicate 200 0x41)) = [0xEF, 0xBF, 0xBD]"
proof -
  have a: "codeLength (js ''HELLO'') = []"
    by code_simp
  have b: "barcode_frame (js ''HELLO'') (Str (js ''CODE128'')) (Bool True) = js ''HELLO'' @ [0x00]"
    by code_simp
  have c: "utf8_encode (barcode_frame (js ''HELLO'') (Str (js ''CODE128'')) (Bool True))
      = [0x48, 0x45, 0x4C, 0x4C, 0x4F, 0x00]"
    by code_simp
  have "codeLength (replicate 200 0x41) = [0xFFFD]"
    by (rule codeLength_replacement) simp_all
  then have d: "utf8_encode (codeLength (replicate 200 0x41)) = [0xEF, 0xBF, 0xBD]"
    by (simp only: utf8_encode_replacement)
  from a b c d show ?thesis by (intro conjI)
qed
subsection \<open>QR codes on a QSPrinter\<close>

lemma regular_qrcode: "regular p (qrcode e code version level sz p)"
proof (cases "this_model p \<noteq> Str (js ''qsprinter'')")
  case True
  then show ?thesis
    unfolding qrcode_def Let_def
    by (auto dest!: call_toUpperCase_error intro!: regular_InlI split: sum.splits)
next
  case False
  show ?thesis
  proof (cases "iconv_encode e code (js ''utf8'')")
    case None
    then show ?thesis using False
      by (simp add: qrcode_def regular_def)
  next
    case (Some dataRaw)
    then show ?thesis using False
      unfolding qrcode_def Let_def
      by auto
  qed
qed

lemma qrcode_never_InvalidCodeLength:
  "qrcode e code version level sz p \<noteq> Inl (InvalidCodeLength, q)"
  using regular_qrcode [of p e code version level sz]
  by (auto simp: regular_def)

text \<open>
  C1. The claim: on a QSPrinter, \<open>qrcode\<close> throws for a payload of 0 bytes or of more
  than 2710 bytes. The source tests \<^verbatim>\<open>dataRaw.length < 1 && dataRaw.length > 2710\<close>,
  which no length satisfies: with the empty payload the call returns and has written
  the whole command sequence, declaring a length of \<open>0 + LEN_OFFSET\<close> twice.
\<close>

theorem qrcode_qsprinter_accepts_empty_payload:
  "iconv_encode sample_env [] (js ''utf8'') = Some []
   \<and> qrcode sample_env [] Undefined Undefined Undefined qs_printer =
       Inr (qs_printer\<lparr>this_buffer :=
         [0x1B, 0x23, 0x23, 0x51, 0x50, 0x49, 0x58, 12,
          0x1D, 0x28, 0x6B, 0x03, 0x00, 0x31, 0x43, 3,
          0x1D, 0x28, 0x6B, 0x03, 0x00, 0x31, 0x45] @ key_bytes (js ''L'') @
         [0x1D, 0x28, 0x6B, 3, 0, 0x31, 0x50, 0x30,
          0x1D, 0x28, 0x6B, 3, 0, 0x31, 0x51, 0x30]\<rparr>)"
  by code_simp

subsection \<open>Continuation lines of a table\<close>

text \<open>
  The widths are doubles: 7 hundredths of a line of 100 columns are a little more than
  7 columns, so that a text of seven characters is followed by one space; 29
  hundredths are a little less than 29 columns, so that a text of 29 characters is too
  long; and a third of 48 columns is 16 columns.
\<close>

lemma double_width_examples:
  "double_mul (double_of_int 100) (to_double (7 / 100)) = Fin 7881299347898369 (- 50)"
  "double_mul (double_of_int 100) (to_double (29 / 100)) = Fin 8162774324609023 (- 48)"
  "double_mul (double_of_int 48) (to_double (1 / 3)) = Fin 1 4"
  by code_simp+

lemma tableCustom_row_seven_hundredths:
  "tableCustom_row 1000 100 [0]
     [\<lparr>cell_text = js ''abcdefg'', cell_originalText = None, cell_width = Some (7 / 100),
       cell_cols = None, cell_align = None\<rparr>]
   = Inr (js ''abcdefg '', [0], False,
          [\<lparr>cell_text = [], cell_originalText = None, cell_width = Some (7 / 100),
            cell_cols = None, cell_align = None\<rparr>])"
  by code_simp

text \<open>
  A cell that is one column wide never gives up a character of a longer text: every
  line is a space, and the calls nest until the stack has no room.
\<close>

lemma tableCustom_depth_overflow:
  "tableCustom_depth 3 sample_env [0] None
     (new_session\<lparr>cell_objects := [wide_cell\<lparr>cell_cols := Some 1\<rparr>]\<rparr>)
   = Inl (StackOverflow,
          new_session\<lparr>the_printer := new_printer\<lparr>this_buffer := [0x20, 0x0A, 0x20, 0x0A, 0x20, 0x0A]\<rparr>,
                       cell_objects := [wide_cell\<lparr>cell_cols := Some 1,
                                          cell_originalText := Some (cell_text wide_cell)\<rparr>]\<rparr>)"
proof -
  let ?c = "wide_cell\<lparr>cell_cols := Some 1\<rparr>"
  let ?c' = "wide_cell\<lparr>cell_cols := Some 1, cell_originalText := Some (cell_text wide_cell)\<rparr>"
  have row: "tableCustom_row 536870888 48 [0] [?c] = Inr ([0x20], [0], True, [?c'])"
    by code_simp
  have row': "tableCustom_row 536870888 48 [0] [?c'] = Inr ([0x20], [0], True, [?c'])"
    by code_simp
  have b: "sample_iconv [0x20, 0x0A] (js ''ascii'') = Some [0x20, 0x0A]"
    by code_simp
  have w: "MAX_STRING_LENGTH sample_env = 536870888" "EOL sample_env = [0x0A]"
      "iconv_encode sample_env = sample_iconv"
    by (simp_all add: sample_env_def js_def)
  show ?thesis
    by (simp add: numeral_3_eq_3 new_session_def new_printer_def w row row' b
        concat_limited_def encoding_or_def buffer_write_def)
qed

lemma encoding_or_simps [simp]:
  "encoding_or None p = this_encoding p"
  "enc \<noteq> [] \<Longrightarrow> encoding_or (Some enc) p = enc"
  by (simp_all add: encoding_or_def)

lemma this_buffer_extends:
  "extends p q \<Longrightarrow> \<exists>rest. this_buffer q = this_buffer p @ rest"
  by (simp add: extends_iff)

text \<open>
  C10. Take a call \<open>tableCustom(data, encoding)\<close> with a non-empty \<open>encoding\<close> in which
  some cell is too long, so that there is a second line, and whose first line is
  encoded; the stack has room for two calls at least. The call goes on as
  \<open>tableCustom(secondLine)\<close>, without the encoding, after it has written the first line
  in \<open>encoding\<close>. The second line is then encoded with the encoding of the session: if
  the transcoder does not know that encoding the call throws, whatever \<open>encoding\<close> was;
  otherwise the bytes that follow the first line in the buffer are the second line in
  the encoding of the session, whether the call returns or throws later on, and they
  end the buffer when no cell of the second line is too long, in which case the call
  returns.
\<close>

theorem tableCustom_continuation_encoding:
  assumes "tableCustom_row (MAX_STRING_LENGTH e) (this_width (the_printer s)) data (cell_objects s)
             = Inr (lineStr, secondLine, True, objs)"
    and "enc \<noteq> []"
    and "concat_limited (MAX_STRING_LENGTH e) lineStr (EOL e) = Some line"
    and "iconv_encode e line enc = Some b"
    and "STACK_DEPTH e = Suc (Suc depth)"
  shows "tableCustom e data (Some enc) s
           = tableCustom_depth (Suc depth) e secondLine None
               (s\<lparr>the_printer := buffer_write b (the_printer s), cell_objects := objs\<rparr>)
     \<and> (\<forall>lineStr2 thirdLine more objs2 line2.
          tableCustom_row (MAX_STRING_LENGTH e) (this_width (the_printer s)) secondLine objs
            = Inr (lineStr2, thirdLine, more, objs2)
          \<and> concat_limited (MAX_STRING_LENGTH e) lineStr2 (EOL e) = Some line2 \<longrightarrow>
          (case iconv_encode e line2 (this_encoding (the_printer s)) of
             None \<Rightarrow>
               tableCustom e data (Some enc) s
                 = Inl (EncodingNotRecognized,
                        s\<lparr>the_printer := buffer_write b (the_printer s), cell_objects := objs2\<rparr>)
           | Some b2 \<Rightarrow>
               (\<exists>rest. this_buffer (the_printer (final (tableCustom e data (Some enc) s)))
                         = this_buffer (the_printer s) @ b @ b2 @ rest)
               \<and> (\<not> more \<longrightarrow>
                    tableCustom e data (Some enc) s
                      = Inr (s\<lparr>the_printer := buffer_write b2 (buffer_write b (the_printer s)),
                               cell_objects := objs2\<rparr>))))"
proof (intro conjI allI impI)
  let ?s1 = "s\<lparr>the_printer := buffer_write b (the_printer s), cell_objects := objs\<rparr>"
  show first: "tableCustom e data (Some enc) s = tableCustom_depth (Suc depth) e secondLine None ?s1"
    using assms by (simp add: tableCustom_def)
  fix lineStr2 thirdLine more objs2 line2
  assume second: "tableCustom_row (MAX_STRING_LENGTH e) (this_width (the_printer s)) secondLine objs
            = Inr (lineStr2, thirdLine, more, objs2)
          \<and> concat_limited (MAX_STRING_LENGTH e) lineStr2 (EOL e) = Some line2"
  show "case iconv_encode e line2 (this_encoding (the_printer s)) of
             None \<Rightarrow>
               tableCustom e data (Some enc) s
                 = Inl (EncodingNotRecognized,
                        s\<lparr>the_printer := buffer_write b (the_printer s), cell_objects := objs2\<rparr>)
           | Some b2 \<Rightarrow>
               (\<exists>rest. this_buffer (the_printer (final (tableCustom e data (Some enc) s)))
                         = this_buffer (the_printer s) @ b @ b2 @ rest)
               \<and> (\<not> more \<longrightarrow>
                    tableCustom e data (Some enc) s
                      = Inr (s\<lparr>the_printer := buffer_write b2 (buffer_write b (the_printer s)),
                               cell_objects := objs2\<rparr>))"
  proof (cases "iconv_encode e line2 (this_encoding (the_printer s))")
    case None
    then show ?thesis using second by (simp add: first)
  next
    case (Some b2)
    let ?s2 = "s\<lparr>the_printer := buffer_write b2 (buffer_write b (the_printer s)),
                  cell_objects := objs2\<rparr>"
    show ?thesis
    proof (cases more)
      case True
      then have r: "tableCustom e data (Some enc) s = tableCustom_depth depth e thirdLine None ?s2"
        using second Some by (simp add: first)
      from tableCustom_depth_extends [of ?s2 depth e thirdLine None]
      obtain rest where
        "this_buffer (the_printer (final (tableCustom_depth depth e thirdLine None ?s2)))
           = this_buffer (the_printer ?s2) @ rest"
        using this_buffer_extends by blast
      then show ?thesis using Some True r by simp
    next
      case False
      then have "tableCustom e data (Some enc) s = Inr ?s2"
        using second Some by (simp add: first)
      then show ?thesis using Some False by simp
    qed
  qed
qed

theorem tableCustom_continuation_encoding_witness:
  "tableCustom_row (MAX_STRING_LENGTH sample_env) (this_width (the_printer new_session)) [0]
       (cell_objects new_session)
     = Inr ([0xE9, 0x61, 0xE9, 0x20], [0], True,
            [wide_cell\<lparr>cell_originalText := Some [0xE9, 0x61, 0xE9, 0x62, 0xE9, 0x63],
                       cell_text := [0x62, 0xE9, 0x63]\<rparr>])
   \<and> js ''utf8'' \<noteq> []
   \<and> iconv_encode sample_env [0xE9, 0x61, 0xE9, 0x20, 0x0A] (js ''utf8'')
       = Some [0xC3, 0xA9, 0x61, 0xC3, 0xA9, 0x20, 0x0A]
   \<and> this_encoding (the_printer new_session) = js ''ascii''
   \<and> iconv_encode sample_env [0x62, 0xE9, 0x63, 0x20, 0x0A] (js ''ascii'')
       = Some [0x62, 0x3F, 0x63, 0x20, 0x0A]
   \<and> tableCustom sample_env [0] (Some (js ''utf8'')) new_session
       = Inr (new_session
                \<lparr>the_printer :=
                   new_printer\<lparr>this_buffer := [0xC3, 0xA9, 0x61, 0xC3, 0xA9, 0x20, 0x0A,
                                                 0x62, 0x3F, 0x63, 0x20, 0x0A]\<rparr>,
                 cell_objects :=
                   [wide_cell\<lparr>cell_originalText := Some [0xE9, 0x61, 0xE9, 0x62, 0xE9, 0x63],
                              cell_text := []\<rparr>]\<rparr>)"
proof -
  let ?objs = "[wide_cell\<lparr>cell_originalText := Some [0xE9, 0x61, 0xE9, 0x62, 0xE9, 0x63],
                          cell_text := [0x62, 0xE9, 0x63]\<rparr>]"
  let ?objs2 = "[wide_cell\<lparr>cell_originalText := Some [0xE9, 0x61, 0xE9, 0x62, 0xE9, 0x63],
                           cell_text := []\<rparr>]"
  have w: "this_width new_printer = 48"
      "this_encoding new_printer = js ''ascii''"
      "cell_objects new_session = [wide_cell]"
      "the_printer new_session = new_printer"
      "MAX_STRING_LENGTH sample_env = 536870888"
      "EOL sample_env = [0x0A]"
    by (simp_all add: new_session_def new_printer_def sample_env_def js_def)
  have row: "tableCustom_row 536870888 48 [0] [wide_cell] = Inr ([0xE9, 0x61, 0xE9, 0x20], [0], True, ?objs)"
    by code_simp
  have row2: "tableCustom_row 536870888 48 [0] ?objs = Inr ([0x62, 0xE9, 0x63, 0x20], [0], False, ?objs2)"
    by code_simp
  have enc: "js ''utf8'' \<noteq> []"
    by simp
  have l1: "concat_limited 536870888 [0xE9, 0x61, 0xE9, 0x20] [0x0A] = Some [0xE9, 0x61, 0xE9, 0x20, 0x0A]"
    by (simp add: concat_limited_def)
  have l2: "concat_limited 536870888 [0x62, 0xE9, 0x63, 0x20] [0x0A] = Some [0x62, 0xE9, 0x63, 0x20, 0x0A]"
    by (simp add: concat_limited_def)
  have b: "iconv_encode sample_env [0xE9, 0x61, 0xE9, 0x20, 0x0A] (js ''utf8'')
       = Some [0xC3, 0xA9, 0x61, 0xC3, 0xA9, 0x20, 0x0A]"
    by code_simp
  have b2: "iconv_encode sample_env [0x62, 0xE9, 0x63, 0x20, 0x0A] (js ''ascii'')
       = Some [0x62, 0x3F, 0x63, 0x20, 0x0A]"
    by code_simp
  have d: "STACK_DEPTH sample_env = Suc (Suc 9998)"
    by (simp add: sample_env_def)
  have bw: "buffer_write [0x62, 0x3F, 0x63, 0x20, 0x0A]
              (buffer_write [0xC3, 0xA9, 0x61, 0xC3, 0xA9, 0x20, 0x0A] new_printer)
            = new_printer\<lparr>this_buffer := [0xC3, 0xA9, 0x61, 0xC3, 0xA9, 0x20, 0x0A,
                                           0x62, 0x3F, 0x63, 0x20, 0x0A]\<rparr>"
    by (simp add: buffer_write_def new_printer_def)
  note t = tableCustom_continuation_encoding
      [of sample_env new_session "[0]" "[0xE9, 0x61, 0xE9, 0x20]" "[0]" ?objs "js ''utf8''"
        "[0xE9, 0x61, 0xE9, 0x20, 0x0A]" "[0xC3, 0xA9, 0x61, 0xC3, 0xA9, 0x20, 0x0A]" 9998]
  from t have "case iconv_encode sample_env [0x62, 0xE9, 0x63, 0x20, 0x0A] (js ''ascii'') of
             None \<Rightarrow>
               tableCustom sample_env [0] (Some (js ''utf8'')) new_session
                 = Inl (EncodingNotRecognized,
                        new_session\<lparr>the_printer := buffer_write [0xC3, 0xA9, 0x61, 0xC3, 0xA9, 0x20, 0x0A]
                                                        (the_printer new_session),
                                     cell_objects := ?objs2\<rparr>)
           | Some b2 \<Rightarrow>
               (\<exists>rest. this_buffer (the_printer (final (tableCustom sample_env [0] (Some (js ''utf8''))
                                                          new_session)))
                         = this_buffer (the_printer new_session)
                             @ [0xC3, 0xA9, 0x61, 0xC3, 0xA9, 0x20, 0x0A] @ b2 @ rest)
               \<and> (\<not> False \<longrightarrow>
                    tableCustom sample_env [0] (Some (js ''utf8'')) new_session
                      = Inr (new_session
                               \<lparr>the_printer := buffer_write b2
                                                  (buffer_write [0xC3, 0xA9, 0x61, 0xC3, 0xA9, 0x20, 0x0A]
                                                     (the_printer new_session)),
                                cell_objects := ?objs2\<rparr>))"
    using row row2 enc l1 l2 b d by (simp only: w) blast
  then have r: "tableCustom sample_env [0] (Some (js ''utf8'')) new_session
       = Inr (new_session
                \<lparr>the_printer :=
                   new_printer\<lparr>this_buffer := [0xC3, 0xA9, 0x61, 0xC3, 0xA9, 0x20, 0x0A,
                                                 0x62, 0x3F, 0x63, 0x20, 0x0A]\<rparr>,
                 cell_objects := ?objs2\<rparr>)"
    by (simp add: b2 w bw)
  from row enc b b2 r w show ?thesis by simp
qed

end
